theory Spec2Isabelle
  imports Main "HOL-Library.Word"
begin

section \<open>ONTAP SAN driver: values shared by all operations\<close>

text \<open>
  The driver (\<open>storage_drivers/ontap/ontap_san.go\<close>) turns each request into a sequence of
  calls on a remote storage controller. Go's \<open>uint64\<close> and \<open>int\<close> (64 bits on the
  supported platforms) are both 64-bit words: the conversions \<open>uint64(x)\<close>, \<open>int(x)\<close> and
  \<open>int64(x)\<close> between them keep the bits, so they are the identity here, and a signed
  comparison is written with \<open>\<le>s\<close> and \<open><s\<close>.
\<close>

type_synonym uint64 = "64 word"
type_synonym go_int = "64 word"

text \<open>
  Go errors. \<open>Errorf\<close> keeps the format string of \<open>fmt.Errorf\<close> and its arguments;
  \<open>Err\<close> is an error made by a collaborator outside this file; \<open>ZapiError\<close> is
  \<open>api.ZapiError\<close> with its code and reason.
\<close>

datatype error =
    Err string
  | ZapiError string string
  | Errorf string "arg list"
  | VolumeExistsError string
  | BackendIneligibleError string "error list" "string list"
and arg = AStr string | AErr error | ANum nat

text \<open>
  Modelled from the spec: the controller API's result values and \<open>api.GetError\<close>, which
  are not in this file. Each verb returns a response and a transport error; a response
  carries a status that can have failed (with a code and a reason) even when the
  transport error is nil, and \<open>GetError\<close> extracts the one error from both.
\<close>

datatype zapi_status = Passed | Failed string string

datatype 'a api_result = Transport error | Response zapi_status 'a

fun GetError :: "'a api_result \<Rightarrow> error option" where
  "GetError (Transport e) = Some e"
| "GetError (Response Passed _) = None"
| "GetError (Response (Failed c r) _) = Some (ZapiError c r)"

definition passed :: "'a api_result \<Rightarrow> bool" where
  "passed r = (GetError r = None)"

fun isOK :: "error + 'a \<Rightarrow> bool" where
  "isOK (Inl _) = False"
| "isOK (Inr _) = True"

text \<open>
  Constants of the packages \<open>azgo\<close> and \<open>tridentconfig\<close>, which are not in this file.
  No theorem below depends on their values.
\<close>

definition EAPIERROR :: string where "EAPIERROR = ''13001''"
definition EVOLUMEDOESNOTEXIST :: string where "EVOLUMEDOESNOTEXIST = ''13040''"
definition ContextDocker :: string where "ContextDocker = ''docker''"

subsection \<open>Configuration and requests\<close>

datatype attr_key = Size | SpaceAllocation | SpaceReserve | SnapshotPolicy | SnapshotReserve
  | UnixPermissions | ExportPolicy | SecurityStyle | Encryption | TieringPolicy | FileSystemType

text \<open>
  The fields of \<open>storage.VolumeConfig\<close>, \<open>storage.Pool\<close> and the driver's configuration
  that this file reads or writes. \<open>VSize\<close> is \<open>volConfig.Size\<close> and \<open>PName\<close> is a pool's
  \<open>Name\<close>; a pool's \<open>InternalAttributes\<close> yields the empty string for a missing key, as
  a Go map does.
\<close>

record volume_config =
  InternalName :: string
  VSize :: string
  ImportNotManaged :: bool

record pool =
  PName :: string
  InternalAttributes :: "attr_key \<Rightarrow> string"

record config =
  DriverContext :: string
  IgroupName :: string

text \<open>The options resolved by \<open>Create\<close> before its loop (lines 214-248).\<close>

record create_opts =
  sizeBytes :: uint64
  size :: string
  spaceAllocation :: bool
  spaceReserve :: string
  snapshotPolicy :: string
  snapshotReserveInt :: int
  unixPermissions :: string
  exportPolicy :: string
  securityStyle :: string
  enableEncryption :: bool
  tieringPolicy :: string
  fstype :: string

text \<open>What the controller returns for a volume and for a LUN; a nil pointer is \<open>None\<close>.\<close>

record volume_id_attrs =
  TypePtr :: "string option"

record flexvol =
  VolumeIdAttributesPtr :: "volume_id_attrs option"

record lun_info =
  OnlinePtr :: "bool option"
  SizePtr :: "go_int option"
  Path :: string
  MappedPtr :: "bool option"

subsection \<open>The controller and the trace of what the driver did\<close>

datatype call =
    CVolumeExists string
  | CVolumeCreate string string create_opts
  | CLunCreate string go_int string bool bool
  | CLunSetAttribute string string string
  | CLunDestroy string
  | CVolumeSize string
  | CVolumeSetSize string string
  | CVolumeGet string
  | CLunGet string
  | CLunRename string string
  | CVolumeRename string string
  | CGetISCSITargetInfo
  | CLunMapListInfo string
  | CVolumeDestroy string bool
  | CLunGetGeometry string
  | CLunResize string go_int
  | CCheckAggregateLimits string string uint64
  | CCheckAggregateLimitsForFlexvol string uint64

text \<open>The calls that change the controller's state; the others only read it.\<close>

fun isMutation :: "call \<Rightarrow> bool" where
  "isMutation (CVolumeCreate _ _ _) = True"
| "isMutation (CLunCreate _ _ _ _ _) = True"
| "isMutation (CLunSetAttribute _ _ _) = True"
| "isMutation (CLunDestroy _) = True"
| "isMutation (CVolumeSetSize _ _) = True"
| "isMutation (CLunRename _ _) = True"
| "isMutation (CVolumeRename _ _) = True"
| "isMutation (CVolumeDestroy _ _) = True"
| "isMutation (CLunResize _ _) = True"
| "isMutation _ = False"

text \<open>
  An event is a remote call with whether it succeeded, a line logged at warning level,
  or the local signal \<open>utils.PrepareDeviceForRemoval\<close>. Lines logged at other levels
  are not recorded.
\<close>

datatype event =
    Remote call bool
  | Warning string
  | PrepareDeviceForRemoval go_int string

fun mutates :: "event \<Rightarrow> bool" where
  "mutates (Remote c _) = isMutation c"
| "mutates _ = False"

text \<open>
  \<open>d.API\<close>: every verb takes the controller's state and returns its answer and the next
  state. \<open>checkAggregateLimits\<close>, \<open>checkAggregateLimitsForFlexvol\<close> and
  \<open>GetISCSITargetInfo\<close> are helpers of the package that query the controller; they are
  not in this file and are taken as verbs of their own.
\<close>

record 's api =
  VolumeExists :: "string \<Rightarrow> 's \<Rightarrow> (error + bool) \<times> 's"
  VolumeCreate :: "string \<Rightarrow> string \<Rightarrow> create_opts \<Rightarrow> 's \<Rightarrow> unit api_result \<times> 's"
  LunCreate :: "string \<Rightarrow> go_int \<Rightarrow> string \<Rightarrow> bool \<Rightarrow> bool \<Rightarrow> 's \<Rightarrow> go_int api_result \<times> 's"
  LunSetAttribute :: "string \<Rightarrow> string \<Rightarrow> string \<Rightarrow> 's \<Rightarrow> unit api_result \<times> 's"
  LunDestroy :: "string \<Rightarrow> 's \<Rightarrow> unit api_result \<times> 's"
  VolumeSize :: "string \<Rightarrow> 's \<Rightarrow> (error + go_int) \<times> 's"
  VolumeSetSize :: "string \<Rightarrow> string \<Rightarrow> 's \<Rightarrow> unit api_result \<times> 's"
  VolumeGet :: "string \<Rightarrow> 's \<Rightarrow> (error + flexvol option) \<times> 's"
  LunGet :: "string \<Rightarrow> 's \<Rightarrow> (error + lun_info) \<times> 's"
  LunRename :: "string \<Rightarrow> string \<Rightarrow> 's \<Rightarrow> unit api_result \<times> 's"
  VolumeRename :: "string \<Rightarrow> string \<Rightarrow> 's \<Rightarrow> unit api_result \<times> 's"
  GetISCSITargetInfo :: "'s \<Rightarrow> (error + string) \<times> 's"
  LunMapListInfo :: "string \<Rightarrow> 's \<Rightarrow> (string \<times> go_int) list option api_result \<times> 's"
  VolumeDestroy :: "string \<Rightarrow> bool \<Rightarrow> 's \<Rightarrow> unit api_result \<times> 's"
  LunGetGeometry :: "string \<Rightarrow> 's \<Rightarrow> go_int api_result \<times> 's"
  LunResize :: "string \<Rightarrow> go_int \<Rightarrow> 's \<Rightarrow> (error + uint64) \<times> 's"
  checkAggregateLimits :: "string \<Rightarrow> string \<Rightarrow> uint64 \<Rightarrow> 's \<Rightarrow> error option \<times> 's"
  checkAggregateLimitsForFlexvol :: "string \<Rightarrow> uint64 \<Rightarrow> 's \<Rightarrow> error option \<times> 's"
  SupportsLunGeometrySkip :: bool
  TieringPolicyValue :: string

type_synonym 's world = "'s \<times> event list"

definition remote :: "call \<Rightarrow> ('r \<Rightarrow> bool) \<Rightarrow> ('s \<Rightarrow> 'r \<times> 's) \<Rightarrow> 's world \<Rightarrow> 'r \<times> 's world" where
  "remote c ok f w = (case f (fst w) of (r, s') \<Rightarrow> (r, (s', snd w @ [Remote c (ok r)])))"

definition emit :: "event \<Rightarrow> 's world \<Rightarrow> 's world" where
  "emit e w = (fst w, snd w @ [e])"

definition lunPath :: "string \<Rightarrow> string" where
  "lunPath name = ''/vol/'' @ name @ ''/lun0''"

section \<open>Destroy\<close>

text \<open>Lines 558-565: the LUN id mapped for the driver's initiator group, or -1.\<close>

definition findLunID :: "string \<Rightarrow> (string \<times> go_int) list option \<Rightarrow> go_int" where
  "findLunID igroup groups =
     (case groups of
        None \<Rightarrow> - 1
      | Some gs \<Rightarrow> fold (\<lambda>g lunID. if fst g = igroup then snd g else lunID) gs (- 1))"

text \<open>Lines 572-586: delete the Flexvol and its LUN.\<close>

definition destroyFlexvol :: "'s api \<Rightarrow> string \<Rightarrow> 's world \<Rightarrow> error option \<times> 's world" where
  "destroyFlexvol a name w =
     (case remote (CVolumeDestroy name True) passed (VolumeDestroy a name True) w of
        (Transport err, w1) \<Rightarrow>
          (Some (Errorf ''error destroying volume %v: %v'' [AStr name, AErr err]), w1)
      | (Response Passed _, w1) \<Rightarrow> (None, w1)
      | (Response (Failed c r) _, w1) \<Rightarrow>
          if c = EVOLUMEDOESNOTEXIST then (None, emit (Warning ''Volume already deleted.'') w1)
          else (Some (Errorf ''error destroying volume %v: %v'' [AStr name, AErr (ZapiError c r)]), w1))"

definition Destroy :: "'s api \<Rightarrow> config \<Rightarrow> string \<Rightarrow> 's world \<Rightarrow> error option \<times> 's world" where
  "Destroy a cfg name w =
     (case remote (CVolumeExists name) isOK (VolumeExists a name) w of
        (Inl err, w1) \<Rightarrow> (Some (Errorf ''error checking for existing volume: %v'' [AErr err]), w1)
      | (Inr volExists, w1) \<Rightarrow>
          if \<not> volExists then (None, w1)
          else if DriverContext cfg = ContextDocker then
            (case remote CGetISCSITargetInfo isOK (GetISCSITargetInfo a) w1 of
               (Inl err, w2) \<Rightarrow> (Some err, w2)
             | (Inr iSCSINodeName, w2) \<Rightarrow>
                 (case remote (CLunMapListInfo (lunPath name)) passed (LunMapListInfo a (lunPath name)) w2 of
                    (Transport err, w3) \<Rightarrow>
                      (Some (Errorf ''error reading LUN maps for volume %s: %v'' [AStr name, AErr err]), w3)
                  | (Response _ groups, w3) \<Rightarrow>
                      (let lunID = findLunID (IgroupName cfg) groups
                       in destroyFlexvol a name
                            (if 0 \<le>s lunID then emit (PrepareDeviceForRemoval lunID iSCSINodeName) w3
                             else w3))))
          else destroyFlexvol a name w1)"

section \<open>Strings and numbers of the Go library\<close>

text \<open>
  A \<open>char\<close> stands for one code point below 256; \<open>unicode.IsSpace\<close> on that range is
  tab, line feed, vertical tab, form feed, carriage return, space, U+0085 and U+00A0.
\<close>

definition isSpace :: "char \<Rightarrow> bool" where
  "isSpace c = (of_char c \<in> set [9, 10, 11, 12, 13, 32, 133, 160 :: nat])"

definition TrimSpace :: "string \<Rightarrow> string" where
  "TrimSpace s = rev (dropWhile isSpace (rev (dropWhile isSpace s)))"

definition HasSuffix :: "string \<Rightarrow> string \<Rightarrow> bool" where
  "HasSuffix s suffix = (length suffix \<le> length s \<and> drop (length s - length suffix) s = suffix)"

definition isDigit :: "char \<Rightarrow> bool" where
  "isDigit c = (48 \<le> (of_char c :: nat) \<and> (of_char c :: nat) \<le> 57)"

text \<open>\<open>strconv.ParseUint(s, 10, 64)\<close>: decimal digits only, no sign, below \<open>2 ^ 64\<close>.\<close>

definition ParseUint :: "string \<Rightarrow> error + uint64" where
  "ParseUint s =
     (if s = [] \<or> \<not> list_all isDigit s then Inl (Err ''invalid syntax'')
      else (let n = foldl (\<lambda>acc c. 10 * acc + (of_char c - 48)) (0::nat) s
            in if n < 2 ^ 64 then Inr (of_nat n) else Inl (Err ''value out of range'')))"

definition ParseBool :: "string \<Rightarrow> error + bool" where
  "ParseBool s =
     (if s \<in> set [''1'', ''t'', ''T'', ''TRUE'', ''true'', ''True''] then Inr True
      else if s \<in> set [''0'', ''f'', ''F'', ''FALSE'', ''false'', ''False''] then Inr False
      else Inl (Err ''invalid syntax''))"

fun decimal :: "nat \<Rightarrow> string" where
  "decimal n =
     (if n < 10 then [''0123456789'' ! n]
      else decimal (n div 10) @ [''0123456789'' ! (n mod 10)])"

declare decimal.simps [simp del]

definition FormatUint :: "uint64 \<Rightarrow> string" where
  "FormatUint x = decimal (unat x)"

definition FormatInt :: "go_int \<Rightarrow> string" where
  "FormatInt x = (if sint x < 0 then CHR ''-'' # decimal (nat (- sint x)) else decimal (nat (sint x)))"

section \<open>Helpers of other packages\<close>

text \<open>
  Functions that \<open>Create\<close> and \<open>Resize\<close> call and that are defined outside this file, taken
  as parameters. They make no remote call. Each stands for the Go function applied to the
  driver's own configuration, pools and attribute requests.
\<close>

record deps =
  getPoolsForCreate :: "volume_config \<Rightarrow> pool \<Rightarrow> error + pool list"
  ConvertSizeToBytes :: "string \<Rightarrow> error + string"
  GetVolumeSize :: "uint64 \<Rightarrow> string \<Rightarrow> error + uint64"
  getVolumeOptsCommon :: "volume_config \<Rightarrow> (string \<rightharpoonup> string)"
  GetV :: "(string \<rightharpoonup> string) \<Rightarrow> string \<Rightarrow> string \<Rightarrow> string"
  CheckVolumeSizeLimits :: "uint64 \<Rightarrow> error option"
  GetSnapshotReserve :: "string \<Rightarrow> string \<Rightarrow> error + int"
  CheckSupportedFilesystem :: "string \<Rightarrow> string \<Rightarrow> error + string"
  VolumeSizeWithinTolerance :: "go_int \<Rightarrow> go_int \<Rightarrow> go_int \<Rightarrow> error + bool"
  SANResizeDelta :: go_int

definition LUNAttributeFSType :: string where
  "LUNAttributeFSType = ''com.netapp.ndvp.fstype''"

text \<open>\<open>resp, err := call; err = api.GetError(resp, err)\<close>\<close>

definition remoteErr :: "call \<Rightarrow> ('s \<Rightarrow> 'r api_result \<times> 's) \<Rightarrow> 's world \<Rightarrow> error option \<times> 's world" where
  "remoteErr c f w = (case remote c passed f w of (r, w') \<Rightarrow> (GetError r, w'))"

section \<open>Import\<close>

text \<open>Lines 437-444: the volume must be of type rw.\<close>

definition importValidateType :: "flexvol \<Rightarrow> string \<Rightarrow> error option" where
  "importValidateType fv originalName =
     (case VolumeIdAttributesPtr fv of
        None \<Rightarrow> None
      | Some volumeIdAttrs \<Rightarrow>
          (case TypePtr volumeIdAttrs of
             None \<Rightarrow> None
           | Some t \<Rightarrow>
               if t \<noteq> ''rw''
               then Some (Errorf ''volume %s type is %s, not rw'' [AStr originalName, AStr t])
               else None))"

text \<open>Lines 446-451: the LUN should be online.\<close>

definition importValidateOnline :: "lun_info \<Rightarrow> error option" where
  "importValidateOnline lunInfo =
     (case OnlinePtr lunInfo of
        None \<Rightarrow> None
      | Some online \<Rightarrow>
          if \<not> online then Some (Errorf ''LUN %s is not online'' [AStr (Path lunInfo)]) else None)"

text \<open>Lines 453-490: adopt the LUN's size, then rename (managed) or check (not managed).\<close>

definition importAdopt ::
  "'s api \<Rightarrow> volume_config \<Rightarrow> string \<Rightarrow> flexvol \<Rightarrow> lun_info \<Rightarrow> 's world
     \<Rightarrow> (error option \<times> volume_config) \<times> 's world" where
  "importAdopt a volConfig originalName fv lunInfo w =
     (case SizePtr lunInfo of
        None \<Rightarrow> ((Some (Errorf ''volume %s size not available'' [AStr originalName]), volConfig), w)
      | Some sz \<Rightarrow>
          (let volConfig' = volConfig\<lparr>VSize := FormatInt sz\<rparr>;
               targetPath = ''/vol/'' @ originalName @ ''/lun0''
           in if \<not> ImportNotManaged volConfig' then
                (case (if Path lunInfo \<noteq> targetPath
                       then remoteErr (CLunRename (Path lunInfo) targetPath)
                              (LunRename a (Path lunInfo) targetPath) w
                       else (None, w)) of
                   (Some err, w1) \<Rightarrow>
                     ((Some (Errorf ''LUN path %s rename failed: %v'' [AStr (Path lunInfo), AErr err]),
                       volConfig'), w1)
                 | (None, w1) \<Rightarrow>
                     (case remoteErr (CVolumeRename originalName (InternalName volConfig'))
                             (VolumeRename a originalName (InternalName volConfig')) w1 of
                        (Some err, w2) \<Rightarrow>
                          ((Some (Errorf ''volume %s rename failed: %v'' [AStr originalName, AErr err]),
                            volConfig'), w2)
                      | (None, w2) \<Rightarrow> ((None, volConfig'), w2)))
              else if VolumeIdAttributesPtr fv = None then
                ((Some (Errorf ''unable to read volume id attributes of volume %s'' [AStr originalName]),
                  volConfig'), w)
              else if Path lunInfo \<noteq> targetPath then
                ((Some (Errorf ''Could not import volume, LUN is nammed incorrectly: %s''
                          [AStr (Path lunInfo)]), volConfig'), w)
              else if MappedPtr lunInfo = Some False then
                ((Some (Errorf ''Could not import volume, LUN is not mapped: %s''
                          [AStr (Path lunInfo)]), volConfig'), w)
              else ((None, volConfig'), w)))"

definition Import ::
  "'s api \<Rightarrow> volume_config \<Rightarrow> string \<Rightarrow> 's world \<Rightarrow> (error option \<times> volume_config) \<times> 's world" where
  "Import a volConfig originalName w =
     (case remote (CVolumeGet originalName) isOK (VolumeGet a originalName) w of
        (Inl err, w1) \<Rightarrow> ((Some err, volConfig), w1)
      | (Inr None, w1) \<Rightarrow> ((Some (Errorf ''volume %s not found'' [AStr originalName]), volConfig), w1)
      | (Inr (Some fv), w1) \<Rightarrow>
          (case remote (CLunGet (''/vol/'' @ originalName @ ''/*'')) isOK
                  (LunGet a (''/vol/'' @ originalName @ ''/*'')) w1 of
             (Inl err, w2) \<Rightarrow> ((Some err, volConfig), w2)
           | (Inr lunInfo, w2) \<Rightarrow>
               (case importValidateType fv originalName of
                  Some err \<Rightarrow> ((Some err, volConfig), w2)
                | None \<Rightarrow>
                    (case importValidateOnline lunInfo of
                       Some err \<Rightarrow> ((Some err, volConfig), w2)
                     | None \<Rightarrow> importAdopt a volConfig originalName fv lunInfo w2))))"

section \<open>Create\<close>

text \<open>
  Lines 186-248: the candidate pools and the options, resolved without any remote call.
  \<open>GetVolumeOpts\<close> (lines 744-749) returns \<open>getVolumeOptsCommon\<close> and never an error.
\<close>

definition resolveCreate ::
  "'s api \<Rightarrow> deps \<Rightarrow> volume_config \<Rightarrow> pool \<Rightarrow> error + (pool list \<times> create_opts)" where
  "resolveCreate a h volConfig storagePool =
     (let name = InternalName volConfig; attr = InternalAttributes storagePool
      in case getPoolsForCreate h volConfig storagePool of
           Inl err \<Rightarrow> Inl err
         | Inr physicalPools \<Rightarrow>
      (case ConvertSizeToBytes h (VSize volConfig) of
           Inl err \<Rightarrow> Inl (Errorf ''could not convert volume size %s: %v'' [AStr (VSize volConfig), AErr err])
         | Inr requestedSize \<Rightarrow>
      (case ParseUint requestedSize of
           Inl err \<Rightarrow> Inl (Errorf ''%v is an invalid volume size: %v'' [AStr (VSize volConfig), AErr err])
         | Inr parsedBytes \<Rightarrow>
      (case GetVolumeSize h parsedBytes (attr Size) of
           Inl err \<Rightarrow> Inl err
         | Inr szBytes \<Rightarrow>
      (let opts = getVolumeOptsCommon h volConfig;
           encryption = GetV h opts ''encryption'' (attr Encryption);
           tiering = GetV h opts ''tieringPolicy'' (attr TieringPolicy)
       in case CheckVolumeSizeLimits h szBytes of
            Some checkVolumeSizeLimitsError \<Rightarrow> Inl checkVolumeSizeLimitsError
          | None \<Rightarrow>
       (case ParseBool encryption of
            Inl err \<Rightarrow> Inl (Errorf ''invalid boolean value for encryption: %v'' [AErr err])
          | Inr enc \<Rightarrow>
       (case GetSnapshotReserve h (GetV h opts ''snapshotPolicy'' (attr SnapshotPolicy))
               (GetV h opts ''snapshotReserve'' (attr SnapshotReserve)) of
            Inl err \<Rightarrow> Inl (Errorf ''invalid value for snapshotReserve: %v'' [AErr err])
          | Inr reserve \<Rightarrow>
       (case CheckSupportedFilesystem h (GetV h opts ''fstype|fileSystemType'' (attr FileSystemType)) name of
            Inl err \<Rightarrow> Inl err
          | Inr fs \<Rightarrow>
              Inr (physicalPools,
                \<lparr>sizeBytes = szBytes,
                 size = FormatUint szBytes,
                 spaceAllocation =
                   (case ParseBool (GetV h opts ''spaceAllocation'' (attr SpaceAllocation)) of
                      Inl _ \<Rightarrow> False | Inr b \<Rightarrow> b),
                 spaceReserve = GetV h opts ''spaceReserve'' (attr SpaceReserve),
                 snapshotPolicy = GetV h opts ''snapshotPolicy'' (attr SnapshotPolicy),
                 snapshotReserveInt = reserve,
                 unixPermissions = GetV h opts ''unixPermissions'' (attr UnixPermissions),
                 exportPolicy = GetV h opts ''exportPolicy'' (attr ExportPolicy),
                 securityStyle = GetV h opts ''securityStyle'' (attr SecurityStyle),
                 enableEncryption = enc,
                 tieringPolicy = (if tiering = [] then TieringPolicyValue a else tiering),
                 fstype = fs\<rparr>)))))))))"

text \<open>Lines 284-291: the error of a create that another node has already submitted.\<close>

fun jobExists :: "error \<Rightarrow> bool" where
  "jobExists (ZapiError code reason) =
     (code = EAPIERROR \<and> HasSuffix (TrimSpace reason) ''Job exists'')"
| "jobExists _ = False"

text \<open>
  Lines 326-350: resize the Flexvol to the LUN's actual size and report the Flexvol's size.
  Nothing here returns an error.
\<close>

definition reconcileCreate ::
  "'s api \<Rightarrow> string \<Rightarrow> uint64 \<Rightarrow> volume_config \<Rightarrow> 's world \<Rightarrow> volume_config \<times> 's world" where
  "reconcileCreate a name lunSize volConfig w =
     (case remote (CVolumeSize name) isOK (VolumeSize a name) w of
        (Inl err, w1) \<Rightarrow> (volConfig, emit (Warning ''Failed to get volume size.'') w1)
      | (Inr initialVolumeSize, w1) \<Rightarrow>
          if lunSize \<noteq> initialVolumeSize then
            (case remoteErr (CVolumeSetSize name (FormatUint lunSize))
                    (VolumeSetSize a name (FormatUint lunSize)) w1 of
               (Some err, w2) \<Rightarrow>
                 (volConfig\<lparr>VSize := FormatUint initialVolumeSize\<rparr>,
                  emit (Warning ''Failed to resize new volume to LUN size.'') w2)
             | (None, w2) \<Rightarrow>
                 (case remote (CVolumeSize name) isOK (VolumeSize a name) w2 of
                    (Inl err, w3) \<Rightarrow>
                      (volConfig,
                       emit (Warning ''Failed to get volume size after the second resize operation.'') w3)
                  | (Inr adjustedVolumeSize, w3) \<Rightarrow>
                      (volConfig\<lparr>VSize := FormatUint adjustedVolumeSize\<rparr>, w3)))
          else (volConfig, w1))"

text \<open>
  One iteration of the loop of lines 267-352: \<open>Continue\<close> is an error appended to
  \<open>createErrors\<close> followed by \<open>continue\<close>, \<open>Return\<close> is a \<open>return\<close> out of \<open>Create\<close>.
  The deferred \<open>LunDestroy\<close> of line 316 runs when \<open>Create\<close> returns, which is at once.
\<close>

datatype step = Continue error | Return "error option"

definition createOnPool ::
  "'s api \<Rightarrow> config \<Rightarrow> string \<Rightarrow> create_opts \<Rightarrow> volume_config \<Rightarrow> pool \<Rightarrow> 's world
     \<Rightarrow> (step \<times> volume_config) \<times> 's world" where
  "createOnPool a cfg storagePoolName opt volConfig physicalPool w =
     (let name = InternalName volConfig; aggregate = PName physicalPool
      in case remote (CCheckAggregateLimits aggregate (spaceReserve opt) (sizeBytes opt)) (\<lambda>r. r = None)
                (checkAggregateLimits a aggregate (spaceReserve opt) (sizeBytes opt)) w of
           (Some aggrLimitsErr, w1) \<Rightarrow>
             ((Continue (Errorf ''ONTAP-SAN pool %s/%s; error: %v''
                          [AStr storagePoolName, AStr aggregate, AErr aggrLimitsErr]), volConfig), w1)
         | (None, w1) \<Rightarrow>
      (case remoteErr (CVolumeCreate name aggregate opt) (VolumeCreate a name aggregate opt) w1 of
           (Some err, w2) \<Rightarrow>
             if jobExists err then
               ((Return None, volConfig),
                emit (Warning ''Volume create job already exists, skipping volume create on this node.'') w2)
             else
               ((Continue (Errorf ''ONTAP-SAN pool %s/%s; error creating volume %s: %v''
                            [AStr storagePoolName, AStr aggregate, AStr name, AErr err]), volConfig), w2)
         | (None, w2) \<Rightarrow>
      (case remote (CLunCreate (lunPath name) (sizeBytes opt) ''linux'' False (spaceAllocation opt)) passed
              (LunCreate a (lunPath name) (sizeBytes opt) ''linux'' False (spaceAllocation opt)) w2 of
           (Transport err, w3) \<Rightarrow>
             ((Continue (Errorf ''ONTAP-SAN pool %s/%s; error creating LUN %s: %v''
                          [AStr storagePoolName, AStr aggregate, AStr name, AErr err]), volConfig), w3)
         | (Response (Failed c r) _, w3) \<Rightarrow>
             ((Continue (Errorf ''ONTAP-SAN pool %s/%s; error creating LUN %s: %v''
                          [AStr storagePoolName, AStr aggregate, AStr name, AErr (ZapiError c r)]),
               volConfig), w3)
         | (Response Passed actualSize, w3) \<Rightarrow>
      (case remoteErr (CLunSetAttribute (lunPath name) LUNAttributeFSType (fstype opt))
              (LunSetAttribute a (lunPath name) LUNAttributeFSType (fstype opt)) w3 of
           (Some err, w4) \<Rightarrow>
             (case remote (CLunDestroy (lunPath name)) passed (LunDestroy a (lunPath name)) w4 of
                (_, w5) \<Rightarrow>
                  ((Return (Some (Errorf ''ONTAP-SAN pool %s/%s; error saving file system type for LUN %s: %v''
                                    [AStr storagePoolName, AStr aggregate, AStr name, AErr err])),
                    volConfig), w5))
         | (None, w4) \<Rightarrow>
      (case remoteErr (CLunSetAttribute (lunPath name) ''context'' (DriverContext cfg))
              (LunSetAttribute a (lunPath name) ''context'' (DriverContext cfg)) w4 of
           (ctxErr, w5) \<Rightarrow>
             (case reconcileCreate a name actualSize volConfig
                     (if ctxErr \<noteq> None
                      then emit (Warning ''Failed to save the driver context attribute for new volume.'') w5
                      else w5) of
                (volConfig', w6) \<Rightarrow> ((Return None, volConfig'), w6)))))))"

text \<open>Lines 264-355: the loop over the candidate pools, in the order given.\<close>

fun createLoop ::
  "'s api \<Rightarrow> config \<Rightarrow> string \<Rightarrow> create_opts \<Rightarrow> volume_config \<Rightarrow> pool list \<Rightarrow> error list
     \<Rightarrow> string list \<Rightarrow> 's world \<Rightarrow> (error option \<times> volume_config) \<times> 's world" where
  "createLoop a cfg storagePoolName opt volConfig [] createErrors physicalPoolNames w =
     ((Some (BackendIneligibleError (InternalName volConfig) createErrors physicalPoolNames), volConfig), w)"
| "createLoop a cfg storagePoolName opt volConfig (physicalPool # rest) createErrors physicalPoolNames w =
     (case createOnPool a cfg storagePoolName opt volConfig physicalPool w of
        ((Continue e, volConfig'), w') \<Rightarrow>
          createLoop a cfg storagePoolName opt volConfig' rest (createErrors @ [e])
            (physicalPoolNames @ [PName physicalPool]) w'
      | ((Return r, volConfig'), w') \<Rightarrow> ((r, volConfig'), w'))"

definition Create ::
  "'s api \<Rightarrow> deps \<Rightarrow> config \<Rightarrow> volume_config \<Rightarrow> pool \<Rightarrow> 's world
     \<Rightarrow> (error option \<times> volume_config) \<times> 's world" where
  "Create a h cfg volConfig storagePool w =
     (let name = InternalName volConfig
      in case remote (CVolumeExists name) isOK (VolumeExists a name) w of
           (Inl err, w1) \<Rightarrow>
             ((Some (Errorf ''error checking for existing volume: %v'' [AErr err]), volConfig), w1)
         | (Inr volExists, w1) \<Rightarrow>
             if volExists then ((Some (VolumeExistsError name), volConfig), w1)
             else (case resolveCreate a h volConfig storagePool of
                     Inl err \<Rightarrow> ((Some err, volConfig), w1)
                   | Inr (physicalPools, opt) \<Rightarrow>
                       createLoop a cfg (PName storagePool) opt volConfig physicalPools [] [] w1))"

section \<open>Resize\<close>

text \<open>Lines 1011-1029: the LUN's maximum size, unless the controller lets the driver skip it.\<close>

definition checkLunGeometry :: "'s api \<Rightarrow> string \<Rightarrow> uint64 \<Rightarrow> 's world \<Rightarrow> error option \<times> 's world" where
  "checkLunGeometry a name szBytes w =
     (if \<not> SupportsLunGeometrySkip a then
        (case remote (CLunGetGeometry (lunPath name)) passed (LunGetGeometry a (lunPath name)) w of
           (Transport err, w1) \<Rightarrow> (Some (Errorf ''volume resize failed'' []), w1)
         | (Response _ lunMaxSize, w1) \<Rightarrow>
             if lunMaxSize <s szBytes
             then (Some (Errorf ''volume resize failed as requested size is larger than LUN's maximum capacity'' []), w1)
             else (None, w1))
      else (None, w))"

text \<open>
  Lines 1045-1069: the same reconciliation as in \<open>Create\<close>, with the size that
  \<open>LunResize\<close> returned.
\<close>

definition reconcileResize ::
  "'s api \<Rightarrow> string \<Rightarrow> uint64 \<Rightarrow> volume_config \<Rightarrow> 's world \<Rightarrow> volume_config \<times> 's world" where
  "reconcileResize a name returnSize volConfig w =
     (case remote (CVolumeSize name) isOK (VolumeSize a name) w of
        (Inl err, w1) \<Rightarrow> (volConfig, emit (Warning ''Failed to get volume size.'') w1)
      | (Inr initialVolumeSize, w1) \<Rightarrow>
          if returnSize \<noteq> initialVolumeSize then
            (case remoteErr (CVolumeSetSize name (FormatUint returnSize))
                    (VolumeSetSize a name (FormatUint returnSize)) w1 of
               (Some err, w2) \<Rightarrow>
                 (volConfig\<lparr>VSize := FormatUint initialVolumeSize\<rparr>,
                  emit (Warning ''Failed to resize volume to match LUN size.'') w2)
             | (None, w2) \<Rightarrow>
                 (case remote (CVolumeSize name) isOK (VolumeSize a name) w2 of
                    (Inl err, w3) \<Rightarrow>
                      (volConfig,
                       emit (Warning ''Failed to get volume size after the second resize operation.'') w3)
                  | (Inr adjustedVolumeSize, w3) \<Rightarrow>
                      (volConfig\<lparr>VSize := FormatUint adjustedVolumeSize\<rparr>, w3)))
          else (volConfig, w1))"

text \<open>Lines 1001-1072: the checks before the mutation, the two resizes and the reconciliation.\<close>

definition resizeGrow ::
  "'s api \<Rightarrow> deps \<Rightarrow> volume_config \<Rightarrow> uint64 \<Rightarrow> 's world \<Rightarrow> (error option \<times> volume_config) \<times> 's world" where
  "resizeGrow a h volConfig szBytes w =
     (let name = InternalName volConfig
      in case remote (CCheckAggregateLimitsForFlexvol name szBytes) (\<lambda>r. r = None)
                (checkAggregateLimitsForFlexvol a name szBytes) w of
           (Some aggrLimitsErr, w1) \<Rightarrow> ((Some aggrLimitsErr, volConfig), w1)
         | (None, w1) \<Rightarrow>
      (case CheckVolumeSizeLimits h szBytes of
           Some checkVolumeSizeLimitsError \<Rightarrow> ((Some checkVolumeSizeLimitsError, volConfig), w1)
         | None \<Rightarrow>
      (case checkLunGeometry a name szBytes w1 of
           (Some err, w2) \<Rightarrow> ((Some err, volConfig), w2)
         | (None, w2) \<Rightarrow>
      (case remoteErr (CVolumeSetSize name (FormatUint szBytes))
              (VolumeSetSize a name (FormatUint szBytes)) w2 of
           (Some err, w3) \<Rightarrow> ((Some (Errorf ''volume resize failed'' []), volConfig), w3)
         | (None, w3) \<Rightarrow>
      (case remote (CLunResize (lunPath name) szBytes) isOK (LunResize a (lunPath name) szBytes) w3 of
           (Inl err, w4) \<Rightarrow> ((Some (Errorf ''volume resize failed'' []), volConfig), w4)
         | (Inr returnSize, w4) \<Rightarrow>
             (case reconcileResize a name returnSize volConfig w4 of
                (volConfig', w5) \<Rightarrow> ((None, volConfig'\<lparr>VSize := FormatUint returnSize\<rparr>), w5)))))))"

text \<open>Lines 944-999, then \<open>resizeGrow\<close>.\<close>

definition Resize ::
  "'s api \<Rightarrow> deps \<Rightarrow> volume_config \<Rightarrow> uint64 \<Rightarrow> 's world \<Rightarrow> (error option \<times> volume_config) \<times> 's world" where
  "Resize a h volConfig szBytes w =
     (let name = InternalName volConfig
      in case remote (CVolumeExists name) isOK (VolumeExists a name) w of
           (Inl err, w1) \<Rightarrow>
             ((Some (Errorf ''error occurred checking for existing volume'' []), volConfig), w1)
         | (Inr volExists, w1) \<Rightarrow>
             if \<not> volExists then ((Some (Errorf ''volume %s does not exist'' [AStr name]), volConfig), w1)
             else
      (case remote (CVolumeSize name) isOK (VolumeSize a name) w1 of
           (Inl err, w2) \<Rightarrow>
             ((Some (Errorf ''error occurred when checking volume size'' []), volConfig), w2)
         | (Inr volSize, w2) \<Rightarrow>
      (case VolumeSizeWithinTolerance h szBytes volSize (SANResizeDelta h) of
           Inl err \<Rightarrow> ((Some err, volConfig), w2)
         | Inr sameSize \<Rightarrow>
             if sameSize then ((None, volConfig\<lparr>VSize := FormatUint volSize\<rparr>), w2)
             else if szBytes < volSize then
               ((Some (Errorf ''requested size %d is less than existing volume size %d''
                         [ANum (unat szBytes), ANum (unat volSize)]), volConfig), w2)
             else resizeGrow a h volConfig szBytes w2)))"

section \<open>Notions used in the statements\<close>

text \<open>
  The controller rejects a candidate, in its own answers: the capacity check of the
  aggregate reports an error, or the creation of the Flexvol fails with an error other than
  that of a create job that already exists, or the Flexvol is created and the creation of
  the LUN fails. The result is the controller's state after these calls, and \<open>None\<close> when
  the controller does not reject the candidate.
\<close>

definition rejected :: "'s api \<Rightarrow> create_opts \<Rightarrow> string \<Rightarrow> pool \<Rightarrow> 's \<Rightarrow> 's option" where
  "rejected a opt name p s =
     (case checkAggregateLimits a (PName p) (spaceReserve opt) (sizeBytes opt) s of
        (Some err, s1) \<Rightarrow> Some s1
      | (None, s1) \<Rightarrow>
          (case VolumeCreate a name (PName p) opt s1 of
             (r, s2) \<Rightarrow>
               (case GetError r of
                  Some err \<Rightarrow> if jobExists err then None else Some s2
                | None \<Rightarrow>
                    (case LunCreate a (lunPath name) (sizeBytes opt) ''linux'' False (spaceAllocation opt) s2 of
                       (r', s3) \<Rightarrow> if GetError r' = None then None else Some s3))))"

text \<open>
  The controller rejects every candidate of a list, one after the other, each from the state
  that the one before has left.
\<close>

fun allRejected :: "'s api \<Rightarrow> create_opts \<Rightarrow> string \<Rightarrow> pool list \<Rightarrow> 's \<Rightarrow> 's option" where
  "allRejected a opt name [] s = Some s"
| "allRejected a opt name (p # ps) s =
     (case rejected a opt name p s of
        None \<Rightarrow> None
      | Some s' \<Rightarrow> allRejected a opt name ps s')"

text \<open>The aggregate that a per-candidate error of \<open>Create\<close> names.\<close>

fun errAggregate :: "error \<Rightarrow> string option" where
  "errAggregate (Errorf f (AStr storagePoolName # AStr aggregate # rest)) = Some aggregate"
| "errAggregate _ = None"

text \<open>An event that changed the controller, other than by creating a Flexvol.\<close>

fun changesBeyondVolumeCreate :: "event \<Rightarrow> bool" where
  "changesBeyondVolumeCreate (Remote (CVolumeCreate name aggregate opt) ok) = False"
| "changesBeyondVolumeCreate (Remote c ok) = (isMutation c \<and> ok)"
| "changesBeyondVolumeCreate _ = False"

text \<open>
  Modelled from the spec: \<open>utils.VolumeSizeWithinTolerance\<close>, which is not in this file.
  The requested size is within the tolerance of the current size when
  \<open>|x - currentSize| \<le> tolerance\<close>.
\<close>

definition withinTolerance :: "go_int \<Rightarrow> go_int \<Rightarrow> go_int \<Rightarrow> error + bool" where
  "withinTolerance requestedSize currentSize delta =
     Inr (\<bar>sint requestedSize - sint currentSize\<bar> \<le> sint delta)"

section \<open>A simulated controller\<close>

text \<open>
  A small controller to run the driver against: it keeps the Flexvols and the LUNs with
  their sizes, rounds a Flexvol's size up to a multiple of 100 and a LUN's size up to a
  multiple of 30, and answers every other verb with success.
\<close>

record sim =
  flexvols :: "(string \<times> uint64) list"
  luns :: "(string \<times> uint64) list"

definition roundUp :: "nat \<Rightarrow> uint64 \<Rightarrow> uint64" where
  "roundUp k x = of_nat (((unat x + k - 1) div k) * k)"

definition simSetSize :: "string \<Rightarrow> string \<Rightarrow> sim \<Rightarrow> unit api_result \<times> sim" where
  "simSetSize name newSize s =
     (case (map_of (flexvols s) name, ParseUint newSize) of
        (Some _, Inr n) \<Rightarrow>
          (Response Passed (),
           s\<lparr>flexvols := map (\<lambda>(k, z). (k, if k = name then roundUp 100 n else z)) (flexvols s)\<rparr>)
      | _ \<Rightarrow> (Response (Failed ''13115'' ''invalid request'') (), s))"

definition simApi :: "sim api" where
  "simApi =
     \<lparr>VolumeExists = (\<lambda>name s. (Inr (map_of (flexvols s) name \<noteq> None), s)),
      VolumeCreate = (\<lambda>name aggregate opt s.
         if map_of (flexvols s) name \<noteq> None
         then (Response (Failed ''17159'' ''Volume already exists'') (), s)
         else (Response Passed (), s\<lparr>flexvols := (name, sizeBytes opt) # flexvols s\<rparr>)),
      LunCreate = (\<lambda>path sz os reserved alloc s.
         (Response Passed (roundUp 30 sz), s\<lparr>luns := (path, roundUp 30 sz) # luns s\<rparr>)),
      LunSetAttribute = (\<lambda>path key val s. (Response Passed (), s)),
      LunDestroy = (\<lambda>path s. (Response Passed (), s\<lparr>luns := filter (\<lambda>(k, z). k \<noteq> path) (luns s)\<rparr>)),
      VolumeSize = (\<lambda>name s.
         (case map_of (flexvols s) name of None \<Rightarrow> Inl (Err ''volume not found'') | Some z \<Rightarrow> Inr z, s)),
      VolumeSetSize = simSetSize,
      VolumeGet = (\<lambda>name s.
         (Inr (if map_of (flexvols s) name = None then None
               else Some \<lparr>VolumeIdAttributesPtr = Some \<lparr>TypePtr = Some ''rw''\<rparr>\<rparr>), s)),
      LunGet = (\<lambda>pattern s.
         (case luns s of
            [(path, sz)] \<Rightarrow>
              Inr \<lparr>OnlinePtr = Some True, SizePtr = Some sz, Path = path, MappedPtr = Some False\<rparr>
          | _ \<Rightarrow> Inl (Err ''expected one LUN''), s)),
      LunRename = (\<lambda>path newPath s.
         (Response Passed (),
          s\<lparr>luns := map (\<lambda>(k, z). (if k = path then newPath else k, z)) (luns s)\<rparr>)),
      VolumeRename = (\<lambda>name newName s.
         (Response Passed (),
          s\<lparr>flexvols := map (\<lambda>(k, z). (if k = name then newName else k, z)) (flexvols s)\<rparr>)),
      GetISCSITargetInfo = (\<lambda>s. (Inr ''iqn.1992-08.com.netapp:sn.1'', s)),
      LunMapListInfo = (\<lambda>path s. (Response Passed (Some [(''trident'', 0)]), s)),
      VolumeDestroy = (\<lambda>name force s.
         if map_of (flexvols s) name = None
         then (Response (Failed EVOLUMEDOESNOTEXIST ''Volume does not exist'') (), s)
         else (Response Passed (),
               s\<lparr>flexvols := filter (\<lambda>(k, z). k \<noteq> name) (flexvols s),
                 luns := filter (\<lambda>(k, z). k \<noteq> lunPath name) (luns s)\<rparr>)),
      LunGetGeometry = (\<lambda>path s. (Response Passed 1000000, s)),
      LunResize = (\<lambda>path sz s.
         (Inr (roundUp 30 sz),
          s\<lparr>luns := map (\<lambda>(k, z). (k, if k = path then roundUp 30 sz else z)) (luns s)\<rparr>)),
      checkAggregateLimits = (\<lambda>aggregate reserve sz s. (None, s)),
      checkAggregateLimitsForFlexvol = (\<lambda>name sz s. (None, s)),
      SupportsLunGeometrySkip = False,
      TieringPolicyValue = ''none''\<rparr>"

text \<open>Controllers that fail in one place.\<close>

definition apiLunCreateFails :: "sim api" where
  "apiLunCreateFails =
     simApi\<lparr>LunCreate := (\<lambda>path sz os reserved alloc s. (Response (Failed ''9012'' ''no space'') 0, s))\<rparr>"

definition apiAttributeFails :: "string \<Rightarrow> sim api" where
  "apiAttributeFails attribute =
     simApi\<lparr>LunSetAttribute := (\<lambda>path key val s.
        if key = attribute then (Response (Failed ''9016'' ''attribute not saved'') (), s)
        else (Response Passed (), s))\<rparr>"

definition apiFullThenUntagged :: "sim api" where
  "apiFullThenUntagged =
     (apiAttributeFails LUNAttributeFSType)\<lparr>checkAggregateLimits := (\<lambda>aggregate reserve sz s.
        (if aggregate = ''a1'' then Some (Err ''aggregate is full'') else None, s))\<rparr>"

definition apiJobExists :: "sim api" where
  "apiJobExists =
     simApi\<lparr>VolumeCreate := (\<lambda>name aggregate opt s.
        (Response (Failed EAPIERROR ''Duplicate create. Job exists '') (), s))\<rparr>"

definition apiSizeUnreadable :: "sim api" where
  "apiSizeUnreadable = simApi\<lparr>VolumeSize := (\<lambda>name s. (Inl (Err ''timeout''), s))\<rparr>"

definition apiStrictSetSize :: "sim api" where
  "apiStrictSetSize =
     simApi\<lparr>VolumeSetSize := (\<lambda>name newSize s.
        case ParseUint newSize of
          Inr n \<Rightarrow> if unat n mod 100 = 0 then simSetSize name newSize s
                   else (Response (Failed ''13115'' ''size is not a multiple of 100'') (), s)
        | Inl err \<Rightarrow> (Transport err, s))\<rparr>"

definition apiStaleProbe :: "sim api" where
  "apiStaleProbe = simApi\<lparr>VolumeExists := (\<lambda>name s. (Inr True, s))\<rparr>"

definition apiDestroyFails :: "sim api" where
  "apiDestroyFails = simApi\<lparr>VolumeDestroy := (\<lambda>name force s. (Response (Failed ''13001'' ''busy'') (), s))\<rparr>"

definition apiDestroyTimeout :: "sim api" where
  "apiDestroyTimeout = simApi\<lparr>VolumeDestroy := (\<lambda>name force s. (Transport (Err ''timeout''), s))\<rparr>"

definition apiBareAttributes :: "sim api" where
  "apiBareAttributes =
     simApi\<lparr>VolumeGet := (\<lambda>name s. (Inr (Some \<lparr>VolumeIdAttributesPtr = Some \<lparr>TypePtr = None\<rparr>\<rparr>), s)),
            LunGet := (\<lambda>pattern s.
              (Inr \<lparr>OnlinePtr = None, SizePtr = Some 1000, Path = ''/vol/legacy/lun0'',
                    MappedPtr = None\<rparr>, s))\<rparr>"

definition simDeps :: "pool list \<Rightarrow> deps" where
  "simDeps candidates =
     \<lparr>getPoolsForCreate = (\<lambda>volConfig storagePool. Inr candidates),
      ConvertSizeToBytes = (\<lambda>s. Inr s),
      GetVolumeSize = (\<lambda>n poolDefault. Inr n),
      getVolumeOptsCommon = (\<lambda>volConfig. Map.empty),
      GetV = (\<lambda>opts key dflt. case opts key of None \<Rightarrow> dflt | Some v \<Rightarrow> v),
      CheckVolumeSizeLimits = (\<lambda>n. None),
      GetSnapshotReserve = (\<lambda>policy reserve. Inr 0),
      CheckSupportedFilesystem = (\<lambda>fs name. Inr fs),
      VolumeSizeWithinTolerance = withinTolerance,
      SANResizeDelta = 50\<rparr>"

definition cfgCSI :: config where
  "cfgCSI = \<lparr>DriverContext = ''csi'', IgroupName = ''trident''\<rparr>"

definition cfgDocker :: config where
  "cfgDocker = \<lparr>DriverContext = ContextDocker, IgroupName = ''trident''\<rparr>"

definition aggr :: "string \<Rightarrow> pool" where
  "aggr n =
     \<lparr>PName = n,
      InternalAttributes =
        (\<lambda>k. if k = Encryption then ''false'' else if k = FileSystemType then ''ext4'' else [])\<rparr>"

definition vol1 :: volume_config where
  "vol1 = \<lparr>InternalName = ''trident_pvc_1'', VSize = ''2000'', ImportNotManaged = False\<rparr>"

definition opt1 :: create_opts where
  "opt1 =
     \<lparr>sizeBytes = 2000, size = ''2000'', spaceAllocation = False, spaceReserve = [],
      snapshotPolicy = [], snapshotReserveInt = 0, unixPermissions = [], exportPolicy = [],
      securityStyle = [], enableEncryption = False, tieringPolicy = ''none'', fstype = ''ext4''\<rparr>"

definition simEmpty :: sim where
  "simEmpty = \<lparr>flexvols = [], luns = []\<rparr>"

definition sim1000 :: sim where
  "sim1000 = \<lparr>flexvols = [(''trident_pvc_1'', 1000)], luns = [(''/vol/trident_pvc_1/lun0'', 1000)]\<rparr>"

section \<open>Properties\<close>

lemmas io_defs = remote_def remoteErr_def emit_def passed_def Let_def

lemma GetError_Response [simp]: "(GetError (Response st x) = None) = (st = Passed)"
  by (cases st) simp_all

lemma destroyFlexvol_success:
  "VolumeDestroy a name True s = (r, s1) \<Longrightarrow>
   (fst (destroyFlexvol a name (s, tr)) = None) =
     (r = Response Passed () \<or> (\<exists>reason. r = Response (Failed EVOLUMEDOESNOTEXIST reason) ()))"
  by (auto simp: destroyFlexvol_def io_defs split: api_result.splits zapi_status.splits)

subsection \<open>Create on an existing volume\<close>

text \<open>
  C1, as the code has it: when the existence probe at the start of \<open>Create\<close> reports that
  the Flexvol already exists, \<open>Create\<close> returns the error \<open>VolumeExistsError\<close> for that
  name, leaves the request as it was and makes no further remote call. It does not
  return success.
\<close>

theorem Create_existing_volume:
  "VolumeExists a (InternalName volConfig) s = (Inr True, s1) \<Longrightarrow>
   Create a h cfg volConfig storagePool (s, tr) =
     ((Some (VolumeExistsError (InternalName volConfig)), volConfig),
      (s1, tr @ [Remote (CVolumeExists (InternalName volConfig)) True]))"
  by (simp add: Create_def io_defs)

theorem Create_existing_volume_witness:
  "Create simApi (simDeps [aggr ''a1'']) cfgCSI vol1 (aggr ''pool'') (sim1000, []) =
     ((Some (VolumeExistsError ''trident_pvc_1''), vol1),
      (sim1000, [Remote (CVolumeExists ''trident_pvc_1'') True]))"
proof -
  have "VolumeExists simApi (InternalName vol1) sim1000 = (Inr True, sim1000)"
    by (simp add: simApi_def sim1000_def vol1_def)
  from Create_existing_volume [OF this, of "simDeps [aggr ''a1'']" cfgCSI "aggr ''pool''" "[]"]
  show ?thesis by (simp add: vol1_def)
qed

text \<open>
  On the simulated controller that already holds the volume, the probe reports it and
  \<open>Create\<close> returns an error.
\<close>

theorem Create_existing_volume_counterexample:
  "VolumeExists simApi (InternalName vol1) sim1000 = (Inr True, sim1000)
   \<and> fst (fst (Create simApi (simDeps [aggr ''a1'']) cfgCSI vol1 (aggr ''pool'') (sim1000, []))) \<noteq> None"
  by (simp add: Create_def io_defs simApi_def sim1000_def vol1_def)

subsection \<open>A create job that already exists\<close>

text \<open>
  C5: in the loop of \<open>Create\<close>, when the creation of the Flexvol on a candidate fails with
  a ZAPI error whose code is \<open>EAPIERROR\<close> and whose trimmed reason ends in
  \<open>Job exists\<close>, \<open>Create\<close> returns success at once: no error is recorded, no later
  candidate is tried and no further remote call is made.
\<close>

theorem createLoop_job_exists:
  assumes "checkAggregateLimits a (PName p) (spaceReserve opt) (sizeBytes opt) s = (None, s1)"
    and "VolumeCreate a (InternalName volConfig) (PName p) opt s1 = (r, s2)"
    and "GetError r = Some (ZapiError code reason)"
    and "code = EAPIERROR"
    and "HasSuffix (TrimSpace reason) ''Job exists''"
  shows "createLoop a cfg storagePoolName opt volConfig (p # rest) createErrors names (s, tr) =
     ((None, volConfig),
      (s2, tr @ [Remote (CCheckAggregateLimits (PName p) (spaceReserve opt) (sizeBytes opt)) True,
                 Remote (CVolumeCreate (InternalName volConfig) (PName p) opt) False,
                 Warning ''Volume create job already exists, skipping volume create on this node.'']))"
  using assms by (simp add: createOnPool_def io_defs)

theorem createLoop_job_exists_witness:
  "createLoop apiJobExists cfgCSI ''pool'' opt1 vol1 [aggr ''a1'', aggr ''a2''] [] [] (simEmpty, []) =
     ((None, vol1),
      (simEmpty, [Remote (CCheckAggregateLimits ''a1'' [] 2000) True,
                  Remote (CVolumeCreate ''trident_pvc_1'' ''a1'' opt1) False,
                  Warning ''Volume create job already exists, skipping volume create on this node.'']))"
proof -
  have l: "checkAggregateLimits apiJobExists (PName (aggr ''a1'')) (spaceReserve opt1) (sizeBytes opt1) simEmpty
      = (None, simEmpty)"
    by (simp add: apiJobExists_def simApi_def)
  have c: "VolumeCreate apiJobExists (InternalName vol1) (PName (aggr ''a1'')) opt1 simEmpty =
      (Response (Failed EAPIERROR ''Duplicate create. Job exists '') (), simEmpty)"
    by (simp add: apiJobExists_def simApi_def)
  have g: "GetError (Response (Failed EAPIERROR ''Duplicate create. Job exists '') ()) =
      Some (ZapiError EAPIERROR ''Duplicate create. Job exists '')"
    by simp
  have j: "HasSuffix (TrimSpace ''Duplicate create. Job exists '') ''Job exists''"
    by (simp add: HasSuffix_def TrimSpace_def isSpace_def)
  from createLoop_job_exists [OF l c g refl j, of cfgCSI "''pool''" "[aggr ''a2'']" "[]" "[]" "[]"]
  show ?thesis by (simp add: vol1_def aggr_def opt1_def)
qed

subsection \<open>Resize within the tolerance, and shrinking\<close>

text \<open>
  C6: when the volume exists and the requested size is within the configured delta of the
  Flexvol's current size, \<open>Resize\<close> returns success, reports the current size in the
  request's \<open>Size\<close>, and has made the two reading calls only.
\<close>

theorem Resize_within_tolerance:
  assumes "VolumeExists a (InternalName volConfig) s = (Inr True, s1)"
    and "VolumeSize a (InternalName volConfig) s1 = (Inr volSize, s2)"
    and "VolumeSizeWithinTolerance h x volSize (SANResizeDelta h) = Inr True"
  shows "Resize a h volConfig x (s, tr) =
     ((None, volConfig\<lparr>VSize := FormatUint volSize\<rparr>),
      (s2, tr @ [Remote (CVolumeExists (InternalName volConfig)) True,
                 Remote (CVolumeSize (InternalName volConfig)) True]))
   \<and> list_all (\<lambda>ev. \<not> mutates ev)
        [Remote (CVolumeExists (InternalName volConfig)) True,
         Remote (CVolumeSize (InternalName volConfig)) True]"
  using assms by (simp add: Resize_def io_defs)

theorem Resize_within_tolerance_witness:
  "Resize simApi (simDeps []) vol1 1020 (sim1000, []) =
     ((None, vol1\<lparr>VSize := ''1000''\<rparr>),
      (sim1000, [Remote (CVolumeExists ''trident_pvc_1'') True,
                 Remote (CVolumeSize ''trident_pvc_1'') True]))"
proof -
  have e: "VolumeExists simApi (InternalName vol1) sim1000 = (Inr True, sim1000)"
    by (simp add: simApi_def sim1000_def vol1_def)
  have z: "VolumeSize simApi (InternalName vol1) sim1000 = (Inr 1000, sim1000)"
    by (simp add: simApi_def sim1000_def vol1_def)
  have t: "VolumeSizeWithinTolerance (simDeps []) 1020 1000 (SANResizeDelta (simDeps [])) = Inr True"
    by (simp add: simDeps_def withinTolerance_def)
  have f: "FormatUint 1000 = ''1000''"
    by (simp add: FormatUint_def decimal.simps)
  from Resize_within_tolerance [OF e z t, of "[]"] f
  show ?thesis by (simp add: vol1_def)
qed

text \<open>
  C7: when the volume exists, the requested size is outside the tolerance and smaller than
  the Flexvol's current size, \<open>Resize\<close> fails with the error that the requested size is
  less than the existing size, and has made the two reading calls only.
\<close>

theorem Resize_rejects_shrink:
  assumes "VolumeExists a (InternalName volConfig) s = (Inr True, s1)"
    and "VolumeSize a (InternalName volConfig) s1 = (Inr volSize, s2)"
    and "VolumeSizeWithinTolerance h x volSize (SANResizeDelta h) = Inr False"
    and "x < volSize"
  shows "Resize a h volConfig x (s, tr) =
     ((Some (Errorf ''requested size %d is less than existing volume size %d''
               [ANum (unat x), ANum (unat volSize)]), volConfig),
      (s2, tr @ [Remote (CVolumeExists (InternalName volConfig)) True,
                 Remote (CVolumeSize (InternalName volConfig)) True]))
   \<and> list_all (\<lambda>ev. \<not> mutates ev)
        [Remote (CVolumeExists (InternalName volConfig)) True,
         Remote (CVolumeSize (InternalName volConfig)) True]"
  using assms by (simp add: Resize_def io_defs)

theorem Resize_rejects_shrink_witness:
  "Resize simApi (simDeps []) vol1 500 (sim1000, []) =
     ((Some (Errorf ''requested size %d is less than existing volume size %d'' [ANum 500, ANum 1000]),
       vol1),
      (sim1000, [Remote (CVolumeExists ''trident_pvc_1'') True,
                 Remote (CVolumeSize ''trident_pvc_1'') True]))"
proof -
  have e: "VolumeExists simApi (InternalName vol1) sim1000 = (Inr True, sim1000)"
    by (simp add: simApi_def sim1000_def vol1_def)
  have z: "VolumeSize simApi (InternalName vol1) sim1000 = (Inr 1000, sim1000)"
    by (simp add: simApi_def sim1000_def vol1_def)
  have t: "VolumeSizeWithinTolerance (simDeps []) 500 1000 (SANResizeDelta (simDeps [])) = Inr False"
    by (simp add: simDeps_def withinTolerance_def)
  have l: "(500 :: uint64) < 1000"
    by simp
  from Resize_rejects_shrink [OF e z t l, of "[]"]
  show ?thesis by (simp add: vol1_def)
qed

subsection \<open>Destroy\<close>

text \<open>
  C9: \<open>Destroy\<close> returns success without attempting a delete when the volume does not
  exist. When it exists, \<open>Destroy\<close> goes on to the delete call (after the steps for the
  Docker context, if they succeed), and the delete call yields success exactly when the
  controller's answer has passed or has failed with the code \<open>EVOLUMEDOESNOTEXIST\<close>:
  a transport error and every other failure code are returned as errors.
\<close>

theorem Destroy_idempotent:
  "(VolumeExists a name s = (Inr False, s1) \<longrightarrow>
      Destroy a cfg name (s, tr) = (None, (s1, tr @ [Remote (CVolumeExists name) True])))
   \<and> (VolumeExists a name s = (Inr True, s1) \<and> DriverContext cfg \<noteq> ContextDocker \<longrightarrow>
      Destroy a cfg name (s, tr) = destroyFlexvol a name (s1, tr @ [Remote (CVolumeExists name) True]))
   \<and> (VolumeExists a name s = (Inr True, s1) \<and> DriverContext cfg = ContextDocker \<and>
       GetISCSITargetInfo a s1 = (Inr node, s2) \<and>
       LunMapListInfo a (lunPath name) s2 = (Response st groups, s3) \<longrightarrow>
      Destroy a cfg name (s, tr) =
        destroyFlexvol a name
          (s3, tr @ [Remote (CVolumeExists name) True, Remote CGetISCSITargetInfo True,
                     Remote (CLunMapListInfo (lunPath name)) (st = Passed)]
                  @ (if 0 \<le>s findLunID (IgroupName cfg) groups
                     then [PrepareDeviceForRemoval (findLunID (IgroupName cfg) groups) node]
                     else [])))
   \<and> (VolumeDestroy a name True sd = (r, sd') \<longrightarrow>
      (fst (destroyFlexvol a name (sd, trd)) = None) =
        (r = Response Passed () \<or> (\<exists>reason. r = Response (Failed EVOLUMEDOESNOTEXIST reason) ())))"
proof (intro conjI impI)
  assume "VolumeExists a name s = (Inr False, s1)"
  then show "Destroy a cfg name (s, tr) = (None, (s1, tr @ [Remote (CVolumeExists name) True]))"
    by (simp add: Destroy_def io_defs)
next
  assume "VolumeExists a name s = (Inr True, s1) \<and> DriverContext cfg \<noteq> ContextDocker"
  then show "Destroy a cfg name (s, tr) =
      destroyFlexvol a name (s1, tr @ [Remote (CVolumeExists name) True])"
    by (simp add: Destroy_def io_defs)
next
  assume "VolumeExists a name s = (Inr True, s1) \<and> DriverContext cfg = ContextDocker \<and>
       GetISCSITargetInfo a s1 = (Inr node, s2) \<and>
       LunMapListInfo a (lunPath name) s2 = (Response st groups, s3)"
  then show "Destroy a cfg name (s, tr) =
        destroyFlexvol a name
          (s3, tr @ [Remote (CVolumeExists name) True, Remote CGetISCSITargetInfo True,
                     Remote (CLunMapListInfo (lunPath name)) (st = Passed)]
                  @ (if 0 \<le>s findLunID (IgroupName cfg) groups
                     then [PrepareDeviceForRemoval (findLunID (IgroupName cfg) groups) node]
                     else []))"
    by (simp add: Destroy_def io_defs)
next
  assume "VolumeDestroy a name True sd = (r, sd')"
  then show "(fst (destroyFlexvol a name (sd, trd)) = None) =
      (r = Response Passed () \<or> (\<exists>reason. r = Response (Failed EVOLUMEDOESNOTEXIST reason) ()))"
    by (rule destroyFlexvol_success)
qed

theorem Destroy_idempotent_witness:
  "Destroy simApi cfgCSI ''trident_pvc_1'' (simEmpty, []) =
     (None, (simEmpty, [Remote (CVolumeExists ''trident_pvc_1'') True]))
   \<and> fst (Destroy apiStaleProbe cfgCSI ''trident_pvc_1'' (simEmpty, [])) = None
   \<and> fst (Destroy apiDestroyFails cfgCSI ''trident_pvc_1'' (sim1000, [])) \<noteq> None
   \<and> fst (Destroy apiDestroyTimeout cfgCSI ''trident_pvc_1'' (sim1000, [])) \<noteq> None
   \<and> Destroy simApi cfgDocker ''trident_pvc_1'' (sim1000, []) =
       (None, (simEmpty,
         [Remote (CVolumeExists ''trident_pvc_1'') True,
          Remote CGetISCSITargetInfo True,
          Remote (CLunMapListInfo ''/vol/trident_pvc_1/lun0'') True,
          PrepareDeviceForRemoval 0 ''iqn.1992-08.com.netapp:sn.1'',
          Remote (CVolumeDestroy ''trident_pvc_1'' True) True]))"
proof -
  have ctx: "DriverContext cfgCSI \<noteq> ContextDocker"
    by (simp add: cfgCSI_def ContextDocker_def)
  have docker: "DriverContext cfgDocker = ContextDocker" "IgroupName cfgDocker = ''trident''"
    by (simp_all add: cfgDocker_def)
  have there: "VolumeExists simApi ''trident_pvc_1'' sim1000 = (Inr True, sim1000)"
    by (simp add: simApi_def sim1000_def)
  have node: "GetISCSITargetInfo simApi sim1000 = (Inr ''iqn.1992-08.com.netapp:sn.1'', sim1000)"
    by (simp add: simApi_def)
  have maps: "LunMapListInfo simApi (lunPath ''trident_pvc_1'') sim1000 =
      (Response Passed (Some [(''trident'', 0)]), sim1000)"
    by (simp add: simApi_def)
  have mapped: "findLunID ''trident'' (Some [(''trident'', 0)]) = 0"
    by (simp add: findLunID_def)
  have deleted: "destroyFlexvol simApi ''trident_pvc_1''
      (sim1000, [Remote (CVolumeExists ''trident_pvc_1'') True,
          Remote CGetISCSITargetInfo True,
          Remote (CLunMapListInfo (lunPath ''trident_pvc_1'')) True,
          PrepareDeviceForRemoval 0 ''iqn.1992-08.com.netapp:sn.1'']) =
       (None, (simEmpty,
         [Remote (CVolumeExists ''trident_pvc_1'') True,
          Remote CGetISCSITargetInfo True,
          Remote (CLunMapListInfo ''/vol/trident_pvc_1/lun0'') True,
          PrepareDeviceForRemoval 0 ''iqn.1992-08.com.netapp:sn.1'',
          Remote (CVolumeDestroy ''trident_pvc_1'' True) True]))"
    by (simp add: destroyFlexvol_def io_defs simApi_def sim1000_def simEmpty_def lunPath_def)
  have absent: "VolumeExists simApi ''trident_pvc_1'' simEmpty = (Inr False, simEmpty)"
    by (simp add: simApi_def simEmpty_def)
  have stale: "VolumeExists apiStaleProbe ''trident_pvc_1'' simEmpty = (Inr True, simEmpty)"
    by (simp add: apiStaleProbe_def simApi_def)
  have gone: "VolumeDestroy apiStaleProbe ''trident_pvc_1'' True simEmpty =
      (Response (Failed EVOLUMEDOESNOTEXIST ''Volume does not exist'') (), simEmpty)"
    by (simp add: apiStaleProbe_def simApi_def simEmpty_def)
  have there1: "VolumeExists apiDestroyFails ''trident_pvc_1'' sim1000 = (Inr True, sim1000)"
    by (simp add: apiDestroyFails_def simApi_def sim1000_def)
  have busy: "VolumeDestroy apiDestroyFails ''trident_pvc_1'' True sim1000 =
      (Response (Failed ''13001'' ''busy'') (), sim1000)"
    by (simp add: apiDestroyFails_def simApi_def)
  have there2: "VolumeExists apiDestroyTimeout ''trident_pvc_1'' sim1000 = (Inr True, sim1000)"
    by (simp add: apiDestroyTimeout_def simApi_def sim1000_def)
  have timeout: "VolumeDestroy apiDestroyTimeout ''trident_pvc_1'' True sim1000 =
      (Transport (Err ''timeout''), sim1000)"
    by (simp add: apiDestroyTimeout_def simApi_def)
  have other: "''13001'' \<noteq> EVOLUMEDOESNOTEXIST"
    by (simp add: EVOLUMEDOESNOTEXIST_def)
  show ?thesis
    using Destroy_idempotent [of simApi "''trident_pvc_1''" simEmpty simEmpty cfgCSI "[]"]
      Destroy_idempotent [of apiStaleProbe "''trident_pvc_1''" simEmpty simEmpty cfgCSI "[]"
        _ _ _ _ _ simEmpty "Response (Failed EVOLUMEDOESNOTEXIST ''Volume does not exist'') ()" simEmpty
        "[Remote (CVolumeExists ''trident_pvc_1'') True]"]
      Destroy_idempotent [of apiDestroyFails "''trident_pvc_1''" sim1000 sim1000 cfgCSI "[]"
        _ _ _ _ _ sim1000 "Response (Failed ''13001'' ''busy'') ()" sim1000
        "[Remote (CVolumeExists ''trident_pvc_1'') True]"]
      Destroy_idempotent [of apiDestroyTimeout "''trident_pvc_1''" sim1000 sim1000 cfgCSI "[]"
        _ _ _ _ _ sim1000 "Transport (Err ''timeout'')" sim1000
        "[Remote (CVolumeExists ''trident_pvc_1'') True]"]
      Destroy_idempotent [of simApi "''trident_pvc_1''" sim1000 sim1000 cfgDocker "[]"
        "''iqn.1992-08.com.netapp:sn.1''" sim1000 Passed "Some [(''trident'', 0)]" sim1000]
      ctx absent stale gone there1 busy there2 timeout other docker there node maps mapped deleted
    by simp
qed

subsection \<open>Import\<close>

text \<open>
  C10: when the controller's answer carries no volume type (no id attributes, or id
  attributes without a type), \<open>Import\<close> skips the read-write check and goes on with the
  online check; when it carries no online flag for the LUN, \<open>Import\<close> skips the online
  check and goes on to adopt the volume once the type check has passed.
\<close>

theorem Import_skips_absent:
  assumes "VolumeGet a originalName s = (Inr (Some fv), s1)"
    and "LunGet a (''/vol/'' @ originalName @ ''/*'') s1 = (Inr lunInfo, s2)"
  shows "((VolumeIdAttributesPtr fv = None \<or>
           (\<exists>attrs. VolumeIdAttributesPtr fv = Some attrs \<and> TypePtr attrs = None)) \<longrightarrow>
          Import a volConfig originalName (s, tr) =
            (case importValidateOnline lunInfo of
               Some err \<Rightarrow> ((Some err, volConfig),
                  (s2, tr @ [Remote (CVolumeGet originalName) True,
                             Remote (CLunGet (''/vol/'' @ originalName @ ''/*'')) True]))
             | None \<Rightarrow> importAdopt a volConfig originalName fv lunInfo
                  (s2, tr @ [Remote (CVolumeGet originalName) True,
                             Remote (CLunGet (''/vol/'' @ originalName @ ''/*'')) True])))
       \<and> (OnlinePtr lunInfo = None \<longrightarrow>
          Import a volConfig originalName (s, tr) =
            (case importValidateType fv originalName of
               Some err \<Rightarrow> ((Some err, volConfig),
                  (s2, tr @ [Remote (CVolumeGet originalName) True,
                             Remote (CLunGet (''/vol/'' @ originalName @ ''/*'')) True]))
             | None \<Rightarrow> importAdopt a volConfig originalName fv lunInfo
                  (s2, tr @ [Remote (CVolumeGet originalName) True,
                             Remote (CLunGet (''/vol/'' @ originalName @ ''/*'')) True])))"
  using assms
  by (auto simp: Import_def importValidateType_def importValidateOnline_def io_defs split: option.splits)

theorem Import_skips_absent_witness:
  "Import apiBareAttributes (vol1\<lparr>InternalName := ''trident_legacy''\<rparr>) ''legacy'' (sim1000, []) =
     ((None, \<lparr>InternalName = ''trident_legacy'', VSize = ''1000'', ImportNotManaged = False\<rparr>),
      (sim1000\<lparr>flexvols := [(''trident_pvc_1'', 1000)]\<rparr>,
       [Remote (CVolumeGet ''legacy'') True, Remote (CLunGet ''/vol/legacy/*'') True,
        Remote (CVolumeRename ''legacy'' ''trident_legacy'') True]))"
proof -
  have g: "VolumeGet apiBareAttributes ''legacy'' sim1000 =
      (Inr (Some \<lparr>VolumeIdAttributesPtr = Some \<lparr>TypePtr = None\<rparr>\<rparr>), sim1000)"
    by (simp add: apiBareAttributes_def simApi_def)
  have l: "LunGet apiBareAttributes (''/vol/'' @ ''legacy'' @ ''/*'') sim1000 =
      (Inr \<lparr>OnlinePtr = None, SizePtr = Some 1000, Path = ''/vol/legacy/lun0'', MappedPtr = None\<rparr>, sim1000)"
    by (simp add: apiBareAttributes_def simApi_def)
  have f: "FormatInt 1000 = ''1000''"
    by (simp add: FormatInt_def decimal.simps)
  from Import_skips_absent [OF g l, of "vol1\<lparr>InternalName := ''trident_legacy''\<rparr>" "[]"] f
  show ?thesis
    by (simp add: importValidateOnline_def importValidateType_def importAdopt_def io_defs vol1_def
        apiBareAttributes_def simApi_def sim1000_def)
qed

subsection \<open>What one candidate and the reconciliation leave in the trace\<close>

lemma reconcileCreate_events:
  "\<exists>volConfig' s' evs. reconcileCreate a name lunSize volConfig (s, tr) = (volConfig', (s', tr @ evs))
     \<and> InternalName volConfig' = InternalName volConfig
     \<and> ((\<exists>c. Remote c False \<in> set evs) \<longrightarrow> (\<exists>m. last evs = Warning m))"
  by (auto simp: reconcileCreate_def io_defs split: prod.splits sum.splits option.splits)

lemma reconcileResize_events:
  "\<exists>volConfig' s' evs. reconcileResize a name returnSize volConfig (s, tr) = (volConfig', (s', tr @ evs))
     \<and> InternalName volConfig' = InternalName volConfig
     \<and> ((\<exists>c. Remote c False \<in> set evs) \<longrightarrow> (\<exists>m. last evs = Warning m))"
  by (auto simp: reconcileResize_def io_defs split: prod.splits sum.splits option.splits)

lemma reconcileCreate_trace:
  "reconcileCreate a name lunSize volConfig (s, tr) = (volConfig', (s', tr')) \<Longrightarrow>
   InternalName volConfig' = InternalName volConfig \<and> (\<exists>evs. tr' = tr @ evs)"
  using reconcileCreate_events [of a name lunSize volConfig s tr] by auto

lemma reconcileResize_trace:
  "reconcileResize a name returnSize volConfig (s, tr) = (volConfig', (s', tr')) \<Longrightarrow>
   InternalName volConfig' = InternalName volConfig \<and> (\<exists>evs. tr' = tr @ evs)"
  using reconcileResize_events [of a name returnSize volConfig s tr] by auto

lemma createOnPool_reconciles:
  assumes "createOnPool a cfg storagePoolName opt volConfig p (s, tr) = ((st, volConfig'), (s', tr'))"
  shows "InternalName volConfig' = InternalName volConfig \<and>
         (\<exists>evs. tr' = tr @ evs \<and>
            ((\<exists>ok. Remote (CVolumeSize (InternalName volConfig)) ok \<in> set evs) \<longrightarrow> st = Return None))"
  using assms
  by (auto simp: createOnPool_def io_defs dest!: reconcileCreate_trace
      split: prod.splits sum.splits option.splits api_result.splits zapi_status.splits if_splits)

lemma createLoop_reconciles:
  "createLoop a cfg storagePoolName opt volConfig ps createErrors names (s, tr) = ((r, volConfig'), (s', tr')) \<Longrightarrow>
   \<exists>evs. tr' = tr @ evs \<and>
     ((\<exists>ok. Remote (CVolumeSize (InternalName volConfig)) ok \<in> set evs) \<longrightarrow> r = None)"
proof (induction ps arbitrary: createErrors names s tr volConfig)
  case Nil
  then show ?case by simp
next
  case (Cons p ps)
  obtain st vc1 s1 tr1 where
    step: "createOnPool a cfg storagePoolName opt volConfig p (s, tr) = ((st, vc1), (s1, tr1))"
    by (cases "createOnPool a cfg storagePoolName opt volConfig p (s, tr)") auto
  from createOnPool_reconciles [OF step] obtain evs1 where
    name: "InternalName vc1 = InternalName volConfig" and tr1: "tr1 = tr @ evs1"
    and rec1: "(\<exists>ok. Remote (CVolumeSize (InternalName volConfig)) ok \<in> set evs1) \<longrightarrow> st = Return None"
    by blast
  show ?case
  proof (cases st)
    case (Return r1)
    with Cons.prems step have "r = r1" "tr' = tr1" by simp_all
    with Return rec1 tr1 show ?thesis by auto
  next
    case (Continue e)
    with rec1 have none1: "\<forall>ok. Remote (CVolumeSize (InternalName volConfig)) ok \<notin> set evs1" by auto
    from Cons.prems step Continue have
      "createLoop a cfg storagePoolName opt vc1 ps (createErrors @ [e]) (names @ [PName p]) (s1, tr1) =
         ((r, volConfig'), (s', tr'))"
      by simp
    from Cons.IH [OF this] name obtain evs where
      "tr' = tr1 @ evs"
      "(\<exists>ok. Remote (CVolumeSize (InternalName volConfig)) ok \<in> set evs) \<longrightarrow> r = None"
      by auto
    with tr1 none1 show ?thesis by auto
  qed
qed

lemma Create_reconciles:
  assumes "Remote (CVolumeSize (InternalName volConfig)) ok \<in>
             set (snd (snd (Create a h cfg volConfig storagePool (s, []))))"
  shows "fst (fst (Create a h cfg volConfig storagePool (s, []))) = None"
proof (cases "VolumeExists a (InternalName volConfig) s")
  case (Pair probe s1)
  show ?thesis
  proof (cases probe)
    case (Inl err)
    with Pair assms show ?thesis by (simp add: Create_def io_defs)
  next
    case (Inr volExists)
    show ?thesis
    proof (cases volExists)
      case True
      with Pair Inr assms show ?thesis by (simp add: Create_def io_defs)
    next
      case False
      show ?thesis
      proof (cases "resolveCreate a h volConfig storagePool")
        case (Inl err)
        with Pair \<open>probe = Inr volExists\<close> False assms show ?thesis by (simp add: Create_def io_defs)
      next
        case (Inr resolved)
        obtain ps opt where resolved: "resolved = (ps, opt)" by (cases resolved) auto
        have unfold: "Create a h cfg volConfig storagePool (s, []) =
            createLoop a cfg (PName storagePool) opt volConfig ps [] []
              (s1, [Remote (CVolumeExists (InternalName volConfig)) True])"
          using Pair \<open>probe = Inr volExists\<close> False Inr resolved by (simp add: Create_def io_defs)
        obtain r vc' s' tr' where
          res: "createLoop a cfg (PName storagePool) opt volConfig ps [] []
              (s1, [Remote (CVolumeExists (InternalName volConfig)) True]) = ((r, vc'), (s', tr'))"
          by (cases "createLoop a cfg (PName storagePool) opt volConfig ps [] []
              (s1, [Remote (CVolumeExists (InternalName volConfig)) True])") auto
        from createLoop_reconciles [OF res] obtain evs where
          "tr' = [Remote (CVolumeExists (InternalName volConfig)) True] @ evs"
          "(\<exists>ok. Remote (CVolumeSize (InternalName volConfig)) ok \<in> set evs) \<longrightarrow> r = None"
          by blast
        with assms unfold res show ?thesis by auto
      qed
    qed
  qed
qed

lemma checkLunGeometry_trace:
  "checkLunGeometry a name x (s, tr) = (r, (s', tr')) \<Longrightarrow>
   \<exists>evs. tr' = tr @ evs \<and> (\<forall>path n ok. Remote (CLunResize path n) ok \<notin> set evs)"
  by (auto simp: checkLunGeometry_def io_defs split: prod.splits api_result.splits if_splits)

lemma resizeGrow_after_lun_resize:
  assumes "resizeGrow a h volConfig x (s, tr) = ((r, volConfig'), (s', tr'))"
  shows "\<exists>evs. tr' = tr @ evs \<and> ((\<exists>path n. Remote (CLunResize path n) True \<in> set evs) \<longrightarrow> r = None)"
  using assms
  apply (simp add: resizeGrow_def io_defs split: prod.splits sum.splits option.splits if_splits)
  apply (auto dest!: reconcileResize_trace checkLunGeometry_trace)
  done

lemma Resize_after_lun_resize:
  assumes "Remote (CLunResize path n) True \<in> set (snd (snd (Resize a h volConfig x (s, []))))"
  shows "fst (fst (Resize a h volConfig x (s, []))) = None"
proof (cases "\<exists>s1 s2 volSize. VolumeExists a (InternalName volConfig) s = (Inr True, s1)
           \<and> VolumeSize a (InternalName volConfig) s1 = (Inr volSize, s2)
           \<and> VolumeSizeWithinTolerance h x volSize (SANResizeDelta h) = Inr False
           \<and> \<not> x < volSize")
  case True
  then obtain s1 s2 volSize where
    ex: "VolumeExists a (InternalName volConfig) s = (Inr True, s1)"
    and sz: "VolumeSize a (InternalName volConfig) s1 = (Inr volSize, s2)"
    and tol: "VolumeSizeWithinTolerance h x volSize (SANResizeDelta h) = Inr False"
    and grow: "\<not> x < volSize"
    by blast
  have unfold: "Resize a h volConfig x (s, []) =
      resizeGrow a h volConfig x
        (s2, [Remote (CVolumeExists (InternalName volConfig)) True,
              Remote (CVolumeSize (InternalName volConfig)) True])"
    using ex sz tol grow by (simp add: Resize_def io_defs)
  obtain r vc' s' tr' where
    res: "resizeGrow a h volConfig x
        (s2, [Remote (CVolumeExists (InternalName volConfig)) True,
              Remote (CVolumeSize (InternalName volConfig)) True]) = ((r, vc'), (s', tr'))"
    by (cases "resizeGrow a h volConfig x
        (s2, [Remote (CVolumeExists (InternalName volConfig)) True,
              Remote (CVolumeSize (InternalName volConfig)) True])") auto
  from resizeGrow_after_lun_resize [OF res] obtain evs where
    "tr' = [Remote (CVolumeExists (InternalName volConfig)) True,
            Remote (CVolumeSize (InternalName volConfig)) True] @ evs"
    "(\<exists>path n. Remote (CLunResize path n) True \<in> set evs) \<longrightarrow> r = None"
    by blast
  with assms unfold res show ?thesis by auto
next
  case False
  with assms show ?thesis
    by (auto simp: Resize_def io_defs split: prod.splits sum.splits if_splits)
qed

lemma createOnPool_lun_create_fails:
  assumes "checkAggregateLimits a (PName p) (spaceReserve opt) (sizeBytes opt) s = (None, s1)"
    and "VolumeCreate a (InternalName volConfig) (PName p) opt s1 = (Response Passed (), s2)"
    and "LunCreate a (lunPath (InternalName volConfig)) (sizeBytes opt) ''linux'' False (spaceAllocation opt) s2
           = (r, s3)"
    and "GetError r = Some err"
  shows "createOnPool a cfg storagePoolName opt volConfig p (s, tr) =
     ((Continue (Errorf ''ONTAP-SAN pool %s/%s; error creating LUN %s: %v''
                  [AStr storagePoolName, AStr (PName p), AStr (InternalName volConfig), AErr err]),
       volConfig),
      (s3, tr @ [Remote (CCheckAggregateLimits (PName p) (spaceReserve opt) (sizeBytes opt)) True,
                 Remote (CVolumeCreate (InternalName volConfig) (PName p) opt) True,
                 Remote (CLunCreate (lunPath (InternalName volConfig)) (sizeBytes opt) ''linux'' False
                           (spaceAllocation opt)) False]))"
  using assms
  by (cases r rule: GetError.cases) (simp_all add: createOnPool_def io_defs)

lemma createOnPool_fstype_fails:
  assumes "checkAggregateLimits a (PName p) (spaceReserve opt) (sizeBytes opt) s = (None, s1)"
    and "VolumeCreate a (InternalName volConfig) (PName p) opt s1 = (Response Passed (), s2)"
    and "LunCreate a (lunPath (InternalName volConfig)) (sizeBytes opt) ''linux'' False (spaceAllocation opt) s2
           = (Response Passed actualSize, s3)"
    and "LunSetAttribute a (lunPath (InternalName volConfig)) LUNAttributeFSType (fstype opt) s3 = (r4, s4)"
    and "GetError r4 = Some err"
    and "LunDestroy a (lunPath (InternalName volConfig)) s4 = (r5, s5)"
  shows "createOnPool a cfg storagePoolName opt volConfig p (s, tr) =
     ((Return (Some (Errorf ''ONTAP-SAN pool %s/%s; error saving file system type for LUN %s: %v''
                  [AStr storagePoolName, AStr (PName p), AStr (InternalName volConfig), AErr err])),
       volConfig),
      (s5, tr @ [Remote (CCheckAggregateLimits (PName p) (spaceReserve opt) (sizeBytes opt)) True,
                 Remote (CVolumeCreate (InternalName volConfig) (PName p) opt) True,
                 Remote (CLunCreate (lunPath (InternalName volConfig)) (sizeBytes opt) ''linux'' False
                           (spaceAllocation opt)) True,
                 Remote (CLunSetAttribute (lunPath (InternalName volConfig)) LUNAttributeFSType (fstype opt)) False,
                 Remote (CLunDestroy (lunPath (InternalName volConfig))) (GetError r5 = None)]))"
  using assms by (simp add: createOnPool_def io_defs)

lemma createOnPool_context_fails:
  assumes "checkAggregateLimits a (PName p) (spaceReserve opt) (sizeBytes opt) s = (None, s1)"
    and "VolumeCreate a (InternalName volConfig) (PName p) opt s1 = (Response Passed (), s2)"
    and "LunCreate a (lunPath (InternalName volConfig)) (sizeBytes opt) ''linux'' False (spaceAllocation opt) s2
           = (Response Passed actualSize, s3)"
    and "LunSetAttribute a (lunPath (InternalName volConfig)) LUNAttributeFSType (fstype opt) s3 =
           (Response Passed (), s4)"
    and "LunSetAttribute a (lunPath (InternalName volConfig)) ''context'' (DriverContext cfg) s4 = (r5, s5)"
    and "GetError r5 = Some err"
  shows "\<exists>volConfig' s' tr'.
     createOnPool a cfg storagePoolName opt volConfig p (s, tr) = ((Return None, volConfig'), (s', tr'))
     \<and> Warning ''Failed to save the driver context attribute for new volume.'' \<in> set tr'"
proof -
  let ?w = "(s5, tr @ [Remote (CCheckAggregateLimits (PName p) (spaceReserve opt) (sizeBytes opt)) True,
                 Remote (CVolumeCreate (InternalName volConfig) (PName p) opt) True,
                 Remote (CLunCreate (lunPath (InternalName volConfig)) (sizeBytes opt) ''linux'' False
                           (spaceAllocation opt)) True,
                 Remote (CLunSetAttribute (lunPath (InternalName volConfig)) LUNAttributeFSType (fstype opt)) True,
                 Remote (CLunSetAttribute (lunPath (InternalName volConfig)) ''context'' (DriverContext cfg)) False,
                 Warning ''Failed to save the driver context attribute for new volume.''])"
  obtain volConfig' s' tr' where
    rec: "reconcileCreate a (InternalName volConfig) actualSize volConfig ?w = (volConfig', (s', tr'))"
    by (cases "reconcileCreate a (InternalName volConfig) actualSize volConfig ?w") auto
  from reconcileCreate_trace [OF rec] have "Warning ''Failed to save the driver context attribute for new volume.'' \<in> set tr'"
    by auto
  moreover have "createOnPool a cfg storagePoolName opt volConfig p (s, tr) = ((Return None, volConfig'), (s', tr'))"
    using assms rec by (simp add: createOnPool_def io_defs)
  ultimately show ?thesis by blast
qed

subsection \<open>Runs on the simulated controller\<close>

lemmas sim_defs = simApi_def simSetSize_def roundUp_def simEmpty_def sim1000_def vol1_def opt1_def
  aggr_def cfgCSI_def lunPath_def FormatUint_def decimal.simps ParseUint_def isDigit_def

lemma resolveCreate_sim:
  "TieringPolicyValue a = ''none'' \<Longrightarrow>
   resolveCreate a (simDeps candidates) vol1 (aggr ''pool'') = Inr (candidates, opt1)"
  by (simp add: resolveCreate_def simDeps_def vol1_def aggr_def opt1_def ParseUint_def ParseBool_def
      isDigit_def FormatUint_def decimal.simps Let_def)

lemma Create_sim:
  assumes "TieringPolicyValue a = ''none''"
    and "VolumeExists a ''trident_pvc_1'' s = (Inr False, s1)"
  shows "Create a (simDeps candidates) cfgCSI vol1 (aggr ''pool'') (s, []) =
     createLoop a cfgCSI ''pool'' opt1 vol1 candidates [] [] (s1, [Remote (CVolumeExists ''trident_pvc_1'') True])"
proof -
  have name: "InternalName vol1 = ''trident_pvc_1''"
    by (simp add: vol1_def)
  have pool: "PName (aggr ''pool'') = ''pool''"
    by (simp add: aggr_def)
  show ?thesis
    by (simp add: Create_def io_defs name pool assms resolveCreate_sim)
qed

lemma lun_create_fails_a1:
  "createOnPool apiLunCreateFails cfgCSI ''pool'' opt1 vol1 (aggr ''a1'') (simEmpty, tr) =
     ((Continue (Errorf ''ONTAP-SAN pool %s/%s; error creating LUN %s: %v''
                  [AStr ''pool'', AStr ''a1'', AStr ''trident_pvc_1'', AErr (ZapiError ''9012'' ''no space'')]),
       vol1),
      (\<lparr>flexvols = [(''trident_pvc_1'', 2000)], luns = []\<rparr>,
       tr @ [Remote (CCheckAggregateLimits ''a1'' [] 2000) True,
             Remote (CVolumeCreate ''trident_pvc_1'' ''a1'' opt1) True,
             Remote (CLunCreate ''/vol/trident_pvc_1/lun0'' 2000 ''linux'' False False) False]))"
  by (simp add: createOnPool_def io_defs apiLunCreateFails_def sim_defs)

lemma fstype_fails_a1:
  "createOnPool (apiAttributeFails LUNAttributeFSType) cfgCSI ''pool'' opt1 vol1 (aggr ''a1'') (simEmpty, tr) =
     ((Return (Some (Errorf ''ONTAP-SAN pool %s/%s; error saving file system type for LUN %s: %v''
                  [AStr ''pool'', AStr ''a1'', AStr ''trident_pvc_1'',
                   AErr (ZapiError ''9016'' ''attribute not saved'')])),
       vol1),
      (\<lparr>flexvols = [(''trident_pvc_1'', 2000)], luns = []\<rparr>,
       tr @ [Remote (CCheckAggregateLimits ''a1'' [] 2000) True,
             Remote (CVolumeCreate ''trident_pvc_1'' ''a1'' opt1) True,
             Remote (CLunCreate ''/vol/trident_pvc_1/lun0'' 2000 ''linux'' False False) True,
             Remote (CLunSetAttribute ''/vol/trident_pvc_1/lun0'' LUNAttributeFSType ''ext4'') False,
             Remote (CLunDestroy ''/vol/trident_pvc_1/lun0'') True]))"
  by (simp add: createOnPool_def io_defs apiAttributeFails_def sim_defs)

subsection \<open>The size that Resize reports\<close>

text \<open>
  Whenever the growing part of \<open>Resize\<close> succeeds, the size it reports is the one that
  \<open>LunResize\<close> returned.
\<close>

lemma resizeGrow_reports_lun_size:
  assumes "resizeGrow a h volConfig x (s, tr) = ((None, volConfig'), (s', tr'))"
  shows "\<exists>s3 s4 returnSize.
     LunResize a (lunPath (InternalName volConfig)) x s3 = (Inr returnSize, s4)
     \<and> VSize volConfig' = FormatUint returnSize"
  using assms
  by (auto simp: resizeGrow_def io_defs split: prod.splits sum.splits option.splits if_splits) blast

text \<open>
  C2, on the simulated controller: a volume of 1000 bytes is resized to 2000. The LUN
  becomes 2010 bytes, the reconciliation resizes the Flexvol to 2010, the controller
  rounds that to 2100, and the reconciliation reads 2100 back. \<open>Resize\<close> succeeds and
  reports 2010, the size that \<open>LunResize\<close> returned, not the 2100 read back: line 1070
  overwrites what lines 1052 and 1062 stored.
\<close>

theorem Resize_reports_lun_size:
  "Resize simApi (simDeps []) vol1 2000 (sim1000, []) =
     ((None, vol1\<lparr>VSize := ''2010''\<rparr>),
      (\<lparr>flexvols = [(''trident_pvc_1'', 2100)], luns = [(''/vol/trident_pvc_1/lun0'', 2010)]\<rparr>,
       [Remote (CVolumeExists ''trident_pvc_1'') True,
        Remote (CVolumeSize ''trident_pvc_1'') True,
        Remote (CCheckAggregateLimitsForFlexvol ''trident_pvc_1'' 2000) True,
        Remote (CLunGetGeometry ''/vol/trident_pvc_1/lun0'') True,
        Remote (CVolumeSetSize ''trident_pvc_1'' ''2000'') True,
        Remote (CLunResize ''/vol/trident_pvc_1/lun0'' 2000) True,
        Remote (CVolumeSize ''trident_pvc_1'') True,
        Remote (CVolumeSetSize ''trident_pvc_1'' ''2010'') True,
        Remote (CVolumeSize ''trident_pvc_1'') True]))
   \<and> fst (VolumeSize simApi ''trident_pvc_1''
        \<lparr>flexvols = [(''trident_pvc_1'', 2100)], luns = [(''/vol/trident_pvc_1/lun0'', 2010)]\<rparr>) = Inr 2100
   \<and> FormatUint 2100 = ''2100''"
  by (simp add: Resize_def resizeGrow_def checkLunGeometry_def reconcileResize_def io_defs
      sim_defs simDeps_def withinTolerance_def)

subsection \<open>Failures after the Flexvol has been created on a candidate\<close>

text \<open>
  C3, as the code has it: once the Flexvol has been created on a candidate, a failure to
  create the LUN is recorded in \<open>createErrors\<close> and the loop goes on with the next
  candidate; a failure to save the file system type destroys the LUN and makes \<open>Create\<close>
  return that one error at once, without trying the remaining candidates; a failure to
  save the context is logged as a warning and \<open>Create\<close> returns success.
\<close>

theorem createLoop_after_volume_created:
  assumes "checkAggregateLimits a (PName p) (spaceReserve opt) (sizeBytes opt) s = (None, s1)"
    and "VolumeCreate a (InternalName volConfig) (PName p) opt s1 = (Response Passed (), s2)"
    and "LunCreate a (lunPath (InternalName volConfig)) (sizeBytes opt) ''linux'' False (spaceAllocation opt) s2
           = (r, s3)"
  shows "(GetError r = Some err \<longrightarrow>
      createLoop a cfg storagePoolName opt volConfig (p # rest) createErrors names (s, tr) =
        createLoop a cfg storagePoolName opt volConfig rest
          (createErrors @ [Errorf ''ONTAP-SAN pool %s/%s; error creating LUN %s: %v''
              [AStr storagePoolName, AStr (PName p), AStr (InternalName volConfig), AErr err]])
          (names @ [PName p])
          (s3, tr @ [Remote (CCheckAggregateLimits (PName p) (spaceReserve opt) (sizeBytes opt)) True,
                     Remote (CVolumeCreate (InternalName volConfig) (PName p) opt) True,
                     Remote (CLunCreate (lunPath (InternalName volConfig)) (sizeBytes opt) ''linux'' False
                               (spaceAllocation opt)) False]))
   \<and> (r = Response Passed actualSize \<and>
       LunSetAttribute a (lunPath (InternalName volConfig)) LUNAttributeFSType (fstype opt) s3 = (r4, s4) \<and>
       GetError r4 = Some err \<and>
       LunDestroy a (lunPath (InternalName volConfig)) s4 = (r5, s5) \<longrightarrow>
      createLoop a cfg storagePoolName opt volConfig (p # rest) createErrors names (s, tr) =
        ((Some (Errorf ''ONTAP-SAN pool %s/%s; error saving file system type for LUN %s: %v''
                  [AStr storagePoolName, AStr (PName p), AStr (InternalName volConfig), AErr err]),
          volConfig),
         (s5, tr @ [Remote (CCheckAggregateLimits (PName p) (spaceReserve opt) (sizeBytes opt)) True,
                    Remote (CVolumeCreate (InternalName volConfig) (PName p) opt) True,
                    Remote (CLunCreate (lunPath (InternalName volConfig)) (sizeBytes opt) ''linux'' False
                              (spaceAllocation opt)) True,
                    Remote (CLunSetAttribute (lunPath (InternalName volConfig)) LUNAttributeFSType
                              (fstype opt)) False,
                    Remote (CLunDestroy (lunPath (InternalName volConfig))) (GetError r5 = None)])))
   \<and> (r = Response Passed actualSize \<and>
       LunSetAttribute a (lunPath (InternalName volConfig)) LUNAttributeFSType (fstype opt) s3 =
         (Response Passed (), s4) \<and>
       LunSetAttribute a (lunPath (InternalName volConfig)) ''context'' (DriverContext cfg) s4 = (r5, s5) \<and>
       GetError r5 = Some err \<longrightarrow>
      fst (fst (createLoop a cfg storagePoolName opt volConfig (p # rest) createErrors names (s, tr))) = None
      \<and> Warning ''Failed to save the driver context attribute for new volume.'' \<in>
          set (snd (snd (createLoop a cfg storagePoolName opt volConfig (p # rest) createErrors names (s, tr)))))"
proof (intro conjI impI)
  assume "GetError r = Some err"
  from createOnPool_lun_create_fails [OF assms this]
  show "createLoop a cfg storagePoolName opt volConfig (p # rest) createErrors names (s, tr) =
        createLoop a cfg storagePoolName opt volConfig rest
          (createErrors @ [Errorf ''ONTAP-SAN pool %s/%s; error creating LUN %s: %v''
              [AStr storagePoolName, AStr (PName p), AStr (InternalName volConfig), AErr err]])
          (names @ [PName p])
          (s3, tr @ [Remote (CCheckAggregateLimits (PName p) (spaceReserve opt) (sizeBytes opt)) True,
                     Remote (CVolumeCreate (InternalName volConfig) (PName p) opt) True,
                     Remote (CLunCreate (lunPath (InternalName volConfig)) (sizeBytes opt) ''linux'' False
                               (spaceAllocation opt)) False])"
    by simp
next
  assume h: "r = Response Passed actualSize \<and>
       LunSetAttribute a (lunPath (InternalName volConfig)) LUNAttributeFSType (fstype opt) s3 = (r4, s4) \<and>
       GetError r4 = Some err \<and>
       LunDestroy a (lunPath (InternalName volConfig)) s4 = (r5, s5)"
  with assms have "createOnPool a cfg storagePoolName opt volConfig p (s, tr) =
     ((Return (Some (Errorf ''ONTAP-SAN pool %s/%s; error saving file system type for LUN %s: %v''
                  [AStr storagePoolName, AStr (PName p), AStr (InternalName volConfig), AErr err])),
       volConfig),
      (s5, tr @ [Remote (CCheckAggregateLimits (PName p) (spaceReserve opt) (sizeBytes opt)) True,
                 Remote (CVolumeCreate (InternalName volConfig) (PName p) opt) True,
                 Remote (CLunCreate (lunPath (InternalName volConfig)) (sizeBytes opt) ''linux'' False
                           (spaceAllocation opt)) True,
                 Remote (CLunSetAttribute (lunPath (InternalName volConfig)) LUNAttributeFSType (fstype opt)) False,
                 Remote (CLunDestroy (lunPath (InternalName volConfig))) (GetError r5 = None)]))"
    by (intro createOnPool_fstype_fails) auto
  then show "createLoop a cfg storagePoolName opt volConfig (p # rest) createErrors names (s, tr) =
        ((Some (Errorf ''ONTAP-SAN pool %s/%s; error saving file system type for LUN %s: %v''
                  [AStr storagePoolName, AStr (PName p), AStr (InternalName volConfig), AErr err]),
          volConfig),
         (s5, tr @ [Remote (CCheckAggregateLimits (PName p) (spaceReserve opt) (sizeBytes opt)) True,
                    Remote (CVolumeCreate (InternalName volConfig) (PName p) opt) True,
                    Remote (CLunCreate (lunPath (InternalName volConfig)) (sizeBytes opt) ''linux'' False
                              (spaceAllocation opt)) True,
                    Remote (CLunSetAttribute (lunPath (InternalName volConfig)) LUNAttributeFSType
                              (fstype opt)) False,
                    Remote (CLunDestroy (lunPath (InternalName volConfig))) (GetError r5 = None)]))"
    by simp
next
  assume h: "r = Response Passed actualSize \<and>
       LunSetAttribute a (lunPath (InternalName volConfig)) LUNAttributeFSType (fstype opt) s3 =
         (Response Passed (), s4) \<and>
       LunSetAttribute a (lunPath (InternalName volConfig)) ''context'' (DriverContext cfg) s4 = (r5, s5) \<and>
       GetError r5 = Some err"
  with assms have "\<exists>volConfig' s' tr'.
     createOnPool a cfg storagePoolName opt volConfig p (s, tr) = ((Return None, volConfig'), (s', tr'))
     \<and> Warning ''Failed to save the driver context attribute for new volume.'' \<in> set tr'"
    by (intro createOnPool_context_fails) auto
  then obtain volConfig' s' tr' where
    step: "createOnPool a cfg storagePoolName opt volConfig p (s, tr) = ((Return None, volConfig'), (s', tr'))"
    and warned: "Warning ''Failed to save the driver context attribute for new volume.'' \<in> set tr'"
    by blast
  from step show "fst (fst (createLoop a cfg storagePoolName opt volConfig (p # rest) createErrors names (s, tr))) = None"
    by simp
  from step warned show "Warning ''Failed to save the driver context attribute for new volume.'' \<in>
          set (snd (snd (createLoop a cfg storagePoolName opt volConfig (p # rest) createErrors names (s, tr))))"
    by simp
qed

theorem createLoop_after_volume_created_witness:
  "createLoop apiLunCreateFails cfgCSI ''pool'' opt1 vol1 [aggr ''a1'', aggr ''a2''] [] [] (simEmpty, []) =
     createLoop apiLunCreateFails cfgCSI ''pool'' opt1 vol1 [aggr ''a2'']
       [Errorf ''ONTAP-SAN pool %s/%s; error creating LUN %s: %v''
          [AStr ''pool'', AStr ''a1'', AStr ''trident_pvc_1'', AErr (ZapiError ''9012'' ''no space'')]]
       [''a1'']
       (\<lparr>flexvols = [(''trident_pvc_1'', 2000)], luns = []\<rparr>,
        [Remote (CCheckAggregateLimits ''a1'' [] 2000) True,
         Remote (CVolumeCreate ''trident_pvc_1'' ''a1'' opt1) True,
         Remote (CLunCreate ''/vol/trident_pvc_1/lun0'' 2000 ''linux'' False False) False])
   \<and> createLoop (apiAttributeFails LUNAttributeFSType) cfgCSI ''pool'' opt1 vol1 [aggr ''a1'', aggr ''a2'']
        [] [] (simEmpty, []) =
     ((Some (Errorf ''ONTAP-SAN pool %s/%s; error saving file system type for LUN %s: %v''
               [AStr ''pool'', AStr ''a1'', AStr ''trident_pvc_1'',
                AErr (ZapiError ''9016'' ''attribute not saved'')]),
       vol1),
      (\<lparr>flexvols = [(''trident_pvc_1'', 2000)], luns = []\<rparr>,
       [Remote (CCheckAggregateLimits ''a1'' [] 2000) True,
        Remote (CVolumeCreate ''trident_pvc_1'' ''a1'' opt1) True,
        Remote (CLunCreate ''/vol/trident_pvc_1/lun0'' 2000 ''linux'' False False) True,
        Remote (CLunSetAttribute ''/vol/trident_pvc_1/lun0'' LUNAttributeFSType ''ext4'') False,
        Remote (CLunDestroy ''/vol/trident_pvc_1/lun0'') True]))
   \<and> fst (fst (createLoop (apiAttributeFails ''context'') cfgCSI ''pool'' opt1 vol1 [aggr ''a1'', aggr ''a2'']
        [] [] (simEmpty, []))) = None
   \<and> Warning ''Failed to save the driver context attribute for new volume.'' \<in>
       set (snd (snd (createLoop (apiAttributeFails ''context'') cfgCSI ''pool'' opt1 vol1
         [aggr ''a1'', aggr ''a2''] [] [] (simEmpty, []))))"
proof -
  let ?made = "\<lparr>flexvols = [(''trident_pvc_1'', 2000)], luns = []\<rparr>"
  let ?lun = "\<lparr>flexvols = [(''trident_pvc_1'', 2000)], luns = [(''/vol/trident_pvc_1/lun0'', 2010)]\<rparr>"
  have sel: "PName (aggr ''a1'') = ''a1''" "InternalName vol1 = ''trident_pvc_1''"
    "spaceReserve opt1 = []" "sizeBytes opt1 = 2000" "spaceAllocation opt1 = False" "fstype opt1 = ''ext4''"
    "DriverContext cfgCSI = ''csi''" "lunPath ''trident_pvc_1'' = ''/vol/trident_pvc_1/lun0''"
    by (simp_all add: aggr_def vol1_def opt1_def cfgCSI_def lunPath_def)
  have differ: "LUNAttributeFSType \<noteq> ''context''"
    by (simp add: LUNAttributeFSType_def)
  \<comment> \<open>the LUN cannot be created\<close>
  have l1: "checkAggregateLimits apiLunCreateFails (PName (aggr ''a1'')) (spaceReserve opt1) (sizeBytes opt1)
      simEmpty = (None, simEmpty)"
    by (simp add: apiLunCreateFails_def simApi_def)
  have v1: "VolumeCreate apiLunCreateFails (InternalName vol1) (PName (aggr ''a1'')) opt1 simEmpty =
      (Response Passed (), ?made)"
    by (simp add: apiLunCreateFails_def sim_defs)
  have c1: "LunCreate apiLunCreateFails (lunPath (InternalName vol1)) (sizeBytes opt1) ''linux'' False
      (spaceAllocation opt1) ?made = (Response (Failed ''9012'' ''no space'') 0, ?made)"
    by (simp add: apiLunCreateFails_def simApi_def)
  have g1: "GetError (Response (Failed ''9012'' ''no space'') (0 :: go_int)) = Some (ZapiError ''9012'' ''no space'')"
    by simp
  note first = createLoop_after_volume_created [OF l1 v1 c1, THEN conjunct1, rule_format, OF g1,
      of cfgCSI "''pool''" "[aggr ''a2'']" "[]" "[]" "[]"]
  \<comment> \<open>the file system type cannot be saved\<close>
  let ?f = "apiAttributeFails LUNAttributeFSType"
  have l2: "checkAggregateLimits ?f (PName (aggr ''a1'')) (spaceReserve opt1) (sizeBytes opt1)
      simEmpty = (None, simEmpty)"
    by (simp add: apiAttributeFails_def simApi_def)
  have v2: "VolumeCreate ?f (InternalName vol1) (PName (aggr ''a1'')) opt1 simEmpty = (Response Passed (), ?made)"
    by (simp add: apiAttributeFails_def sim_defs)
  have c2: "LunCreate ?f (lunPath (InternalName vol1)) (sizeBytes opt1) ''linux'' False
      (spaceAllocation opt1) ?made = (Response Passed 2010, ?lun)"
    by (simp add: apiAttributeFails_def sim_defs)
  have a2: "LunSetAttribute ?f (lunPath (InternalName vol1)) LUNAttributeFSType (fstype opt1) ?lun =
      (Response (Failed ''9016'' ''attribute not saved'') (), ?lun)"
    by (simp add: apiAttributeFails_def simApi_def)
  have g2: "GetError (Response (Failed ''9016'' ''attribute not saved'') ()) =
      Some (ZapiError ''9016'' ''attribute not saved'')"
    by simp
  have d2: "LunDestroy ?f (lunPath (InternalName vol1)) ?lun = (Response Passed (), ?made)"
    by (simp add: apiAttributeFails_def sim_defs)
  note second = createLoop_after_volume_created [OF l2 v2 c2, THEN conjunct2, THEN conjunct1, rule_format,
      OF conjI [OF refl conjI [OF a2 conjI [OF g2 d2]]],
      of cfgCSI "''pool''" "[aggr ''a2'']" "[]" "[]" "[]"]
  \<comment> \<open>the context cannot be saved\<close>
  let ?c = "apiAttributeFails ''context''"
  have l3: "checkAggregateLimits ?c (PName (aggr ''a1'')) (spaceReserve opt1) (sizeBytes opt1)
      simEmpty = (None, simEmpty)"
    by (simp add: apiAttributeFails_def simApi_def)
  have v3: "VolumeCreate ?c (InternalName vol1) (PName (aggr ''a1'')) opt1 simEmpty = (Response Passed (), ?made)"
    by (simp add: apiAttributeFails_def sim_defs)
  have c3: "LunCreate ?c (lunPath (InternalName vol1)) (sizeBytes opt1) ''linux'' False
      (spaceAllocation opt1) ?made = (Response Passed 2010, ?lun)"
    by (simp add: apiAttributeFails_def sim_defs)
  have a3: "LunSetAttribute ?c (lunPath (InternalName vol1)) LUNAttributeFSType (fstype opt1) ?lun =
      (Response Passed (), ?lun)"
    using differ by (simp add: apiAttributeFails_def simApi_def)
  have x3: "LunSetAttribute ?c (lunPath (InternalName vol1)) ''context'' (DriverContext cfgCSI) ?lun =
      (Response (Failed ''9016'' ''attribute not saved'') (), ?lun)"
    by (simp add: apiAttributeFails_def simApi_def)
  note third = createLoop_after_volume_created [OF l3 v3 c3, THEN conjunct2, THEN conjunct2, rule_format,
      OF conjI [OF refl conjI [OF a3 conjI [OF x3 g2]]],
      of "''pool''" "[aggr ''a2'']" "[]" "[]" "[]"]
  from first second third show ?thesis
    by (simp add: sel)
qed

text \<open>
  With two candidates and a controller that cannot save the file system type, \<open>Create\<close>
  returns a single error from inside the loop after it has created the Flexvol and the LUN
  on the first candidate; the second candidate is never tried.
\<close>

theorem createLoop_after_volume_created_counterexample:
  "Create (apiAttributeFails LUNAttributeFSType) (simDeps [aggr ''a1'', aggr ''a2'']) cfgCSI vol1
      (aggr ''pool'') (simEmpty, []) =
     ((Some (Errorf ''ONTAP-SAN pool %s/%s; error saving file system type for LUN %s: %v''
               [AStr ''pool'', AStr ''a1'', AStr ''trident_pvc_1'',
                AErr (ZapiError ''9016'' ''attribute not saved'')]),
       vol1),
      (\<lparr>flexvols = [(''trident_pvc_1'', 2000)], luns = []\<rparr>,
       [Remote (CVolumeExists ''trident_pvc_1'') True,
        Remote (CCheckAggregateLimits ''a1'' [] 2000) True,
        Remote (CVolumeCreate ''trident_pvc_1'' ''a1'' opt1) True,
        Remote (CLunCreate ''/vol/trident_pvc_1/lun0'' 2000 ''linux'' False False) True,
        Remote (CLunSetAttribute ''/vol/trident_pvc_1/lun0'' LUNAttributeFSType ''ext4'') False,
        Remote (CLunDestroy ''/vol/trident_pvc_1/lun0'') True]))"
proof -
  have "Create (apiAttributeFails LUNAttributeFSType) (simDeps [aggr ''a1'', aggr ''a2'']) cfgCSI vol1
      (aggr ''pool'') (simEmpty, []) =
      createLoop (apiAttributeFails LUNAttributeFSType) cfgCSI ''pool'' opt1 vol1 [aggr ''a1'', aggr ''a2'']
        [] [] (simEmpty, [Remote (CVolumeExists ''trident_pvc_1'') True])"
    by (rule Create_sim) (simp_all add: apiAttributeFails_def simApi_def simEmpty_def)
  then show ?thesis
    by (simp add: fstype_fails_a1)
qed

subsection \<open>Every candidate fails\<close>

lemma rejected_step:
  assumes "rejected a opt (InternalName volConfig) p s = Some s'"
  shows "\<exists>e evs.
     createOnPool a cfg storagePoolName opt volConfig p (s, tr) = ((Continue e, volConfig), (s', tr @ evs))
     \<and> errAggregate e = Some (PName p)
     \<and> list_all (\<lambda>ev. \<not> changesBeyondVolumeCreate ev) evs"
  using assms
  by (auto simp: rejected_def createOnPool_def io_defs
      split: prod.splits option.splits api_result.splits zapi_status.splits if_splits)

lemma allRejected_loop:
  "allRejected a opt (InternalName volConfig) ps s = Some s' \<Longrightarrow>
   \<exists>es evs.
     length es = length ps
     \<and> map errAggregate es = map (\<lambda>p. Some (PName p)) ps
     \<and> list_all (\<lambda>ev. \<not> changesBeyondVolumeCreate ev) evs
     \<and> (\<forall>rest createErrors names.
          createLoop a cfg storagePoolName opt volConfig (ps @ rest) createErrors names (s, tr) =
          createLoop a cfg storagePoolName opt volConfig rest (createErrors @ es)
            (names @ map PName ps) (s', tr @ evs))"
proof (induction ps arbitrary: s tr)
  case Nil
  then have "s' = s" by simp
  then have "length ([] :: error list) = length ([] :: pool list)
     \<and> map errAggregate [] = map (\<lambda>p. Some (PName p)) []
     \<and> list_all (\<lambda>ev. \<not> changesBeyondVolumeCreate ev) []
     \<and> (\<forall>rest createErrors names.
          createLoop a cfg storagePoolName opt volConfig ([] @ rest) createErrors names (s, tr) =
          createLoop a cfg storagePoolName opt volConfig rest (createErrors @ [])
            (names @ map PName []) (s', tr @ []))"
    by simp
  then show ?case by blast
next
  case (Cons p ps)
  from Cons.prems obtain s1 where
    first: "rejected a opt (InternalName volConfig) p s = Some s1"
    and others: "allRejected a opt (InternalName volConfig) ps s1 = Some s'"
    by (auto split: option.splits)
  from rejected_step [OF first, of cfg storagePoolName tr] obtain e evs1 where
    step: "createOnPool a cfg storagePoolName opt volConfig p (s, tr) =
             ((Continue e, volConfig), (s1, tr @ evs1))"
    and agg: "errAggregate e = Some (PName p)"
    and quiet1: "list_all (\<lambda>ev. \<not> changesBeyondVolumeCreate ev) evs1"
    by blast
  from Cons.IH [OF others, of "tr @ evs1"] obtain es evs where
    len: "length es = length ps"
    and aggs: "map errAggregate es = map (\<lambda>p. Some (PName p)) ps"
    and quiet: "list_all (\<lambda>ev. \<not> changesBeyondVolumeCreate ev) evs"
    and loop: "\<And>rest createErrors names.
          createLoop a cfg storagePoolName opt volConfig (ps @ rest) createErrors names (s1, tr @ evs1) =
          createLoop a cfg storagePoolName opt volConfig rest (createErrors @ es)
            (names @ map PName ps) (s', (tr @ evs1) @ evs)"
    by blast
  have "length (e # es) = length (p # ps)"
    using len by simp
  moreover have "map errAggregate (e # es) = map (\<lambda>p. Some (PName p)) (p # ps)"
    using agg aggs by simp
  moreover have "list_all (\<lambda>ev. \<not> changesBeyondVolumeCreate ev) (evs1 @ evs)"
    using quiet1 quiet by simp
  moreover have "\<forall>rest createErrors names.
          createLoop a cfg storagePoolName opt volConfig ((p # ps) @ rest) createErrors names (s, tr) =
          createLoop a cfg storagePoolName opt volConfig rest (createErrors @ (e # es))
            (names @ map PName (p # ps)) (s', tr @ (evs1 @ evs))"
    using step loop by simp
  ultimately show ?case by blast
qed

text \<open>
  C4, as the code has it. A candidate is rejected when the controller fails its capacity
  check, fails to create the Flexvol (with an error other than that of a create job that
  already exists) or creates the Flexvol and fails to create the LUN. When the controller
  rejects every one of the N candidates, \<open>Create\<close> returns \<open>BackendIneligibleError\<close> with
  exactly N errors, one per candidate and naming the candidates in the order given,
  together with the N pool names; the only successful changes it has made on the
  controller are creations of Flexvols, none of which it destroys, so a Flexvol whose LUN
  could not be created stays. When instead, after any number of rejected candidates, the
  controller creates the Flexvol and the LUN of a candidate and fails to save the file
  system type, \<open>Create\<close> returns that single error and no aggregate: its last call destroys
  that LUN, and the later candidates are not tried.
\<close>

theorem Create_candidates_rejected:
  assumes "VolumeExists a (InternalName volConfig) s = (Inr False, s1)"
    and "allRejected a opt (InternalName volConfig) ps s1 = Some s2"
  shows "(resolveCreate a h volConfig storagePool = Inr (ps, opt) \<longrightarrow>
      (\<exists>es evs.
         Create a h cfg volConfig storagePool (s, tr) =
           ((Some (BackendIneligibleError (InternalName volConfig) es (map PName ps)), volConfig),
            (s2, tr @ evs))
         \<and> length es = length ps
         \<and> map errAggregate es = map (\<lambda>p. Some (PName p)) ps
         \<and> list_all (\<lambda>ev. \<not> changesBeyondVolumeCreate ev) evs))
   \<and> (resolveCreate a h volConfig storagePool = Inr (ps @ p # later, opt) \<and>
       checkAggregateLimits a (PName p) (spaceReserve opt) (sizeBytes opt) s2 = (None, s3) \<and>
       VolumeCreate a (InternalName volConfig) (PName p) opt s3 = (Response Passed (), s4) \<and>
       LunCreate a (lunPath (InternalName volConfig)) (sizeBytes opt) ''linux'' False (spaceAllocation opt) s4
         = (Response Passed actualSize, s5) \<and>
       LunSetAttribute a (lunPath (InternalName volConfig)) LUNAttributeFSType (fstype opt) s5 = (r6, s6) \<and>
       GetError r6 = Some err \<and>
       LunDestroy a (lunPath (InternalName volConfig)) s6 = (r7, s7) \<longrightarrow>
      (\<exists>evs.
         Create a h cfg volConfig storagePool (s, tr) =
           ((Some (Errorf ''ONTAP-SAN pool %s/%s; error saving file system type for LUN %s: %v''
                     [AStr (PName storagePool), AStr (PName p), AStr (InternalName volConfig), AErr err]),
             volConfig),
            (s7, tr @ evs))
         \<and> last evs = Remote (CLunDestroy (lunPath (InternalName volConfig))) (GetError r7 = None)))"
proof (intro conjI impI)
  from allRejected_loop [OF assms(2), of cfg "PName storagePool"
      "tr @ [Remote (CVolumeExists (InternalName volConfig)) True]"]
  obtain es evs where
    len: "length es = length ps"
    and aggs: "map errAggregate es = map (\<lambda>p. Some (PName p)) ps"
    and quiet: "list_all (\<lambda>ev. \<not> changesBeyondVolumeCreate ev) evs"
    and loop: "\<And>rest createErrors names.
          createLoop a cfg (PName storagePool) opt volConfig (ps @ rest) createErrors names
            (s1, tr @ [Remote (CVolumeExists (InternalName volConfig)) True]) =
          createLoop a cfg (PName storagePool) opt volConfig rest (createErrors @ es)
            (names @ map PName ps)
            (s2, (tr @ [Remote (CVolumeExists (InternalName volConfig)) True]) @ evs)"
    by blast
  {
    assume resolved: "resolveCreate a h volConfig storagePool = Inr (ps, opt)"
    have "Create a h cfg volConfig storagePool (s, tr) =
        createLoop a cfg (PName storagePool) opt volConfig ps [] []
          (s1, tr @ [Remote (CVolumeExists (InternalName volConfig)) True])"
      using assms(1) resolved by (simp add: Create_def io_defs)
    with loop [of "[]" "[]" "[]"] have "Create a h cfg volConfig storagePool (s, tr) =
        ((Some (BackendIneligibleError (InternalName volConfig) es (map PName ps)), volConfig),
         (s2, tr @ (Remote (CVolumeExists (InternalName volConfig)) True # evs)))"
      by simp
    moreover have "list_all (\<lambda>ev. \<not> changesBeyondVolumeCreate ev)
        (Remote (CVolumeExists (InternalName volConfig)) True # evs)"
      using quiet by simp
    ultimately show "\<exists>es evs.
         Create a h cfg volConfig storagePool (s, tr) =
           ((Some (BackendIneligibleError (InternalName volConfig) es (map PName ps)), volConfig),
            (s2, tr @ evs))
         \<and> length es = length ps
         \<and> map errAggregate es = map (\<lambda>p. Some (PName p)) ps
         \<and> list_all (\<lambda>ev. \<not> changesBeyondVolumeCreate ev) evs"
      using len aggs by blast
  }
  {
    assume h: "resolveCreate a h volConfig storagePool = Inr (ps @ p # later, opt) \<and>
       checkAggregateLimits a (PName p) (spaceReserve opt) (sizeBytes opt) s2 = (None, s3) \<and>
       VolumeCreate a (InternalName volConfig) (PName p) opt s3 = (Response Passed (), s4) \<and>
       LunCreate a (lunPath (InternalName volConfig)) (sizeBytes opt) ''linux'' False (spaceAllocation opt) s4
         = (Response Passed actualSize, s5) \<and>
       LunSetAttribute a (lunPath (InternalName volConfig)) LUNAttributeFSType (fstype opt) s5 = (r6, s6) \<and>
       GetError r6 = Some err \<and>
       LunDestroy a (lunPath (InternalName volConfig)) s6 = (r7, s7)"
    let ?tr = "(tr @ [Remote (CVolumeExists (InternalName volConfig)) True]) @ evs"
    let ?evs = "[Remote (CCheckAggregateLimits (PName p) (spaceReserve opt) (sizeBytes opt)) True,
                 Remote (CVolumeCreate (InternalName volConfig) (PName p) opt) True,
                 Remote (CLunCreate (lunPath (InternalName volConfig)) (sizeBytes opt) ''linux'' False
                           (spaceAllocation opt)) True,
                 Remote (CLunSetAttribute (lunPath (InternalName volConfig)) LUNAttributeFSType (fstype opt)) False,
                 Remote (CLunDestroy (lunPath (InternalName volConfig))) (GetError r7 = None)]"
    from h have step: "createOnPool a cfg (PName storagePool) opt volConfig p (s2, ?tr) =
       ((Return (Some (Errorf ''ONTAP-SAN pool %s/%s; error saving file system type for LUN %s: %v''
                  [AStr (PName storagePool), AStr (PName p), AStr (InternalName volConfig), AErr err])),
         volConfig),
        (s7, ?tr @ ?evs))"
      by (intro createOnPool_fstype_fails) auto
    have "Create a h cfg volConfig storagePool (s, tr) =
        createLoop a cfg (PName storagePool) opt volConfig (ps @ p # later) [] []
          (s1, tr @ [Remote (CVolumeExists (InternalName volConfig)) True])"
      using assms(1) h by (simp add: Create_def io_defs)
    with loop [of "p # later" "[]" "[]"] step have "Create a h cfg volConfig storagePool (s, tr) =
        ((Some (Errorf ''ONTAP-SAN pool %s/%s; error saving file system type for LUN %s: %v''
                  [AStr (PName storagePool), AStr (PName p), AStr (InternalName volConfig), AErr err]),
          volConfig),
         (s7, tr @ (Remote (CVolumeExists (InternalName volConfig)) True # evs @ ?evs)))"
      by simp
    moreover have "last (Remote (CVolumeExists (InternalName volConfig)) True # evs @ ?evs) =
        Remote (CLunDestroy (lunPath (InternalName volConfig))) (GetError r7 = None)"
      by simp
    ultimately show "\<exists>evs.
         Create a h cfg volConfig storagePool (s, tr) =
           ((Some (Errorf ''ONTAP-SAN pool %s/%s; error saving file system type for LUN %s: %v''
                     [AStr (PName storagePool), AStr (PName p), AStr (InternalName volConfig), AErr err]),
             volConfig),
            (s7, tr @ evs))
         \<and> last evs = Remote (CLunDestroy (lunPath (InternalName volConfig))) (GetError r7 = None)"
      by blast
  }
qed

theorem Create_candidates_rejected_witness:
  "allRejected apiLunCreateFails opt1 (InternalName vol1) [aggr ''a1'', aggr ''a2''] simEmpty =
     Some \<lparr>flexvols = [(''trident_pvc_1'', 2000)], luns = []\<rparr>
   \<and> (\<exists>es evs.
        Create apiLunCreateFails (simDeps [aggr ''a1'', aggr ''a2'']) cfgCSI vol1 (aggr ''pool'') (simEmpty, []) =
          ((Some (BackendIneligibleError (InternalName vol1) es (map PName [aggr ''a1'', aggr ''a2''])), vol1),
           (\<lparr>flexvols = [(''trident_pvc_1'', 2000)], luns = []\<rparr>, [] @ evs))
        \<and> length es = length [aggr ''a1'', aggr ''a2'']
        \<and> map errAggregate es = map (\<lambda>p. Some (PName p)) [aggr ''a1'', aggr ''a2'']
        \<and> list_all (\<lambda>ev. \<not> changesBeyondVolumeCreate ev) evs)
   \<and> allRejected apiFullThenUntagged opt1 (InternalName vol1) [aggr ''a1''] simEmpty = Some simEmpty
   \<and> (\<exists>evs.
        Create apiFullThenUntagged (simDeps [aggr ''a1'', aggr ''a2'', aggr ''a3'']) cfgCSI vol1 (aggr ''pool'')
            (simEmpty, []) =
          ((Some (Errorf ''ONTAP-SAN pool %s/%s; error saving file system type for LUN %s: %v''
                    [AStr (PName (aggr ''pool'')), AStr (PName (aggr ''a2'')), AStr (InternalName vol1),
                     AErr (ZapiError ''9016'' ''attribute not saved'')]),
            vol1),
           (\<lparr>flexvols = [(''trident_pvc_1'', 2000)], luns = []\<rparr>, [] @ evs))
        \<and> last evs = Remote (CLunDestroy (lunPath (InternalName vol1)))
                        (GetError (Response Passed ()) = None))"
proof -
  let ?made = "\<lparr>flexvols = [(''trident_pvc_1'', 2000)], luns = []\<rparr>"
  let ?lun = "\<lparr>flexvols = [(''trident_pvc_1'', 2000)], luns = [(''/vol/trident_pvc_1/lun0'', 2010)]\<rparr>"
  \<comment> \<open>no LUN can be created: the first candidate gets its Flexvol, the second finds it there\<close>
  have probe1: "VolumeExists apiLunCreateFails (InternalName vol1) simEmpty = (Inr False, simEmpty)"
    by (simp add: apiLunCreateFails_def simApi_def simEmpty_def)
  have rejected1: "allRejected apiLunCreateFails opt1 (InternalName vol1) [aggr ''a1'', aggr ''a2''] simEmpty =
      Some ?made"
    by (simp add: rejected_def apiLunCreateFails_def sim_defs EAPIERROR_def)
  have resolved1: "resolveCreate apiLunCreateFails (simDeps [aggr ''a1'', aggr ''a2'']) vol1 (aggr ''pool'') =
      Inr ([aggr ''a1'', aggr ''a2''], opt1)"
    by (rule resolveCreate_sim) (simp add: apiLunCreateFails_def simApi_def)
  note aggregated = Create_candidates_rejected [where cfg = cfgCSI and tr = "[]", OF probe1 rejected1,
      THEN conjunct1, rule_format, OF resolved1]
  \<comment> \<open>the first aggregate is full, the second candidate cannot be tagged\<close>
  let ?c = apiFullThenUntagged
  have probe2: "VolumeExists ?c (InternalName vol1) simEmpty = (Inr False, simEmpty)"
    by (simp add: apiFullThenUntagged_def apiAttributeFails_def simApi_def simEmpty_def)
  have rejected2: "allRejected ?c opt1 (InternalName vol1) [aggr ''a1''] simEmpty = Some simEmpty"
    by (simp add: rejected_def apiFullThenUntagged_def apiAttributeFails_def simApi_def aggr_def)
  have resolved2: "resolveCreate ?c (simDeps [aggr ''a1'', aggr ''a2'', aggr ''a3'']) vol1 (aggr ''pool'') =
      Inr ([aggr ''a1''] @ aggr ''a2'' # [aggr ''a3''], opt1)"
    by (simp add: resolveCreate_sim apiFullThenUntagged_def apiAttributeFails_def simApi_def)
  have limits: "checkAggregateLimits ?c (PName (aggr ''a2'')) (spaceReserve opt1) (sizeBytes opt1) simEmpty =
      (None, simEmpty)"
    by (simp add: apiFullThenUntagged_def apiAttributeFails_def simApi_def aggr_def)
  have flexvol: "VolumeCreate ?c (InternalName vol1) (PName (aggr ''a2'')) opt1 simEmpty =
      (Response Passed (), ?made)"
    by (simp add: apiFullThenUntagged_def apiAttributeFails_def sim_defs)
  have lun: "LunCreate ?c (lunPath (InternalName vol1)) (sizeBytes opt1) ''linux'' False (spaceAllocation opt1)
      ?made = (Response Passed 2010, ?lun)"
    by (simp add: apiFullThenUntagged_def apiAttributeFails_def sim_defs)
  have tag: "LunSetAttribute ?c (lunPath (InternalName vol1)) LUNAttributeFSType (fstype opt1) ?lun =
      (Response (Failed ''9016'' ''attribute not saved'') (), ?lun)"
    by (simp add: apiFullThenUntagged_def apiAttributeFails_def simApi_def)
  have err: "GetError (Response (Failed ''9016'' ''attribute not saved'') ()) =
      Some (ZapiError ''9016'' ''attribute not saved'')"
    by simp
  have destroy: "LunDestroy ?c (lunPath (InternalName vol1)) ?lun = (Response Passed (), ?made)"
    by (simp add: apiFullThenUntagged_def apiAttributeFails_def sim_defs)
  note single = Create_candidates_rejected [where cfg = cfgCSI and tr = "[]", OF probe2 rejected2,
      THEN conjunct2, rule_format,
      OF conjI [OF resolved2 conjI [OF limits conjI [OF flexvol conjI [OF lun conjI [OF tag conjI [OF err destroy]]]]]]]
  show ?thesis
    by (rule conjI [OF rejected1 conjI [OF aggregated conjI [OF rejected2 single]]])
qed

text \<open>
  With one candidate on which the LUN cannot be created, the controller rejects every
  candidate, \<open>Create\<close> returns the aggregated error with one entry, and the Flexvol exists
  afterwards.
\<close>

theorem Create_candidates_rejected_counterexample:
  "allRejected apiLunCreateFails opt1 ''trident_pvc_1'' [aggr ''a1''] simEmpty =
     Some \<lparr>flexvols = [(''trident_pvc_1'', 2000)], luns = []\<rparr>
   \<and> fst (fst (Create apiLunCreateFails (simDeps [aggr ''a1'']) cfgCSI vol1 (aggr ''pool'') (simEmpty, []))) =
       Some (BackendIneligibleError ''trident_pvc_1''
         [Errorf ''ONTAP-SAN pool %s/%s; error creating LUN %s: %v''
            [AStr ''pool'', AStr ''a1'', AStr ''trident_pvc_1'', AErr (ZapiError ''9012'' ''no space'')]]
         [''a1''])
   \<and> fst (VolumeExists apiLunCreateFails ''trident_pvc_1''
         (fst (snd (Create apiLunCreateFails (simDeps [aggr ''a1'']) cfgCSI vol1 (aggr ''pool'') (simEmpty, [])))))
       = Inr True"
proof -
  have "Create apiLunCreateFails (simDeps [aggr ''a1'']) cfgCSI vol1 (aggr ''pool'') (simEmpty, []) =
      createLoop apiLunCreateFails cfgCSI ''pool'' opt1 vol1 [aggr ''a1''] [] []
        (simEmpty, [Remote (CVolumeExists ''trident_pvc_1'') True])"
    by (rule Create_sim) (simp_all add: apiLunCreateFails_def simApi_def simEmpty_def)
  then have run: "Create apiLunCreateFails (simDeps [aggr ''a1'']) cfgCSI vol1 (aggr ''pool'') (simEmpty, []) =
      ((Some (BackendIneligibleError ''trident_pvc_1''
         [Errorf ''ONTAP-SAN pool %s/%s; error creating LUN %s: %v''
            [AStr ''pool'', AStr ''a1'', AStr ''trident_pvc_1'', AErr (ZapiError ''9012'' ''no space'')]]
         [''a1'']), vol1),
       (\<lparr>flexvols = [(''trident_pvc_1'', 2000)], luns = []\<rparr>,
        [Remote (CVolumeExists ''trident_pvc_1'') True,
         Remote (CCheckAggregateLimits ''a1'' [] 2000) True,
         Remote (CVolumeCreate ''trident_pvc_1'' ''a1'' opt1) True,
         Remote (CLunCreate ''/vol/trident_pvc_1/lun0'' 2000 ''linux'' False False) False]))"
    by (simp add: lun_create_fails_a1) (simp add: vol1_def aggr_def)
  have fails: "allRejected apiLunCreateFails opt1 ''trident_pvc_1'' [aggr ''a1''] simEmpty =
      Some \<lparr>flexvols = [(''trident_pvc_1'', 2000)], luns = []\<rparr>"
    by (simp add: rejected_def apiLunCreateFails_def sim_defs)
  have "fst (VolumeExists apiLunCreateFails ''trident_pvc_1''
      \<lparr>flexvols = [(''trident_pvc_1'', 2000)], luns = []\<rparr>) = Inr True"
    by (simp add: apiLunCreateFails_def simApi_def)
  with run fails show ?thesis by simp
qed

subsection \<open>Failures of the reconciliation\<close>

text \<open>
  C8: once \<open>Create\<close> has started the reconciliation (it has asked for the Flexvol's size,
  which it does only after the LUN has been created and tagged), it returns success
  whatever the reconciliation's calls answer; once \<open>Resize\<close> has resized the LUN, it
  returns success whatever the reconciliation's calls answer. In both reconciliations a
  call that fails is followed by a warning, which is the last thing the reconciliation
  does.
\<close>

theorem reconciliation_failure_is_warning:
  "(Remote (CVolumeSize (InternalName volConfig)) ok \<in>
        set (snd (snd (Create a h cfg volConfig storagePool (s, [])))) \<longrightarrow>
      fst (fst (Create a h cfg volConfig storagePool (s, []))) = None)
   \<and> (Remote (CLunResize path n) True \<in> set (snd (snd (Resize a h volConfig x (s, [])))) \<longrightarrow>
      fst (fst (Resize a h volConfig x (s, []))) = None)
   \<and> (\<exists>volConfig' s' evs.
        reconcileCreate a name lunSize volConfig (s, tr) = (volConfig', (s', tr @ evs))
        \<and> ((\<exists>c. Remote c False \<in> set evs) \<longrightarrow> (\<exists>m. last evs = Warning m)))
   \<and> (\<exists>volConfig' s' evs.
        reconcileResize a name lunSize volConfig (s, tr) = (volConfig', (s', tr @ evs))
        \<and> ((\<exists>c. Remote c False \<in> set evs) \<longrightarrow> (\<exists>m. last evs = Warning m)))"
proof (intro conjI impI)
  assume "Remote (CVolumeSize (InternalName volConfig)) ok \<in>
        set (snd (snd (Create a h cfg volConfig storagePool (s, []))))"
  then show "fst (fst (Create a h cfg volConfig storagePool (s, []))) = None"
    by (rule Create_reconciles)
next
  assume "Remote (CLunResize path n) True \<in> set (snd (snd (Resize a h volConfig x (s, []))))"
  then show "fst (fst (Resize a h volConfig x (s, []))) = None"
    by (rule Resize_after_lun_resize)
next
  show "\<exists>volConfig' s' evs.
        reconcileCreate a name lunSize volConfig (s, tr) = (volConfig', (s', tr @ evs))
        \<and> ((\<exists>c. Remote c False \<in> set evs) \<longrightarrow> (\<exists>m. last evs = Warning m))"
    using reconcileCreate_events [of a name lunSize volConfig s tr] by blast
next
  show "\<exists>volConfig' s' evs.
        reconcileResize a name lunSize volConfig (s, tr) = (volConfig', (s', tr @ evs))
        \<and> ((\<exists>c. Remote c False \<in> set evs) \<longrightarrow> (\<exists>m. last evs = Warning m))"
    using reconcileResize_events [of a name lunSize volConfig s tr] by blast
qed

theorem reconciliation_failure_is_warning_witness:
  "Remote (CVolumeSize ''trident_pvc_1'') False \<in>
      set (snd (snd (Create apiSizeUnreadable (simDeps [aggr ''a1'']) cfgCSI vol1 (aggr ''pool'') (simEmpty, []))))
   \<and> fst (fst (Create apiSizeUnreadable (simDeps [aggr ''a1'']) cfgCSI vol1 (aggr ''pool'') (simEmpty, []))) = None
   \<and> Remote (CVolumeSetSize ''trident_pvc_1'' ''2010'') False \<in>
      set (snd (snd (Resize apiStrictSetSize (simDeps []) vol1 2000 (sim1000, []))))
   \<and> Remote (CLunResize ''/vol/trident_pvc_1/lun0'' 2000) True \<in>
      set (snd (snd (Resize apiStrictSetSize (simDeps []) vol1 2000 (sim1000, []))))
   \<and> fst (fst (Resize apiStrictSetSize (simDeps []) vol1 2000 (sim1000, []))) = None"
proof -
  have step: "createOnPool apiSizeUnreadable cfgCSI ''pool'' opt1 vol1 (aggr ''a1'')
      (simEmpty, [Remote (CVolumeExists ''trident_pvc_1'') True]) =
      ((Return None, vol1),
       (\<lparr>flexvols = [(''trident_pvc_1'', 2000)], luns = [(''/vol/trident_pvc_1/lun0'', 2010)]\<rparr>,
        [Remote (CVolumeExists ''trident_pvc_1'') True,
         Remote (CCheckAggregateLimits ''a1'' [] 2000) True,
         Remote (CVolumeCreate ''trident_pvc_1'' ''a1'' opt1) True,
         Remote (CLunCreate ''/vol/trident_pvc_1/lun0'' 2000 ''linux'' False False) True,
         Remote (CLunSetAttribute ''/vol/trident_pvc_1/lun0'' LUNAttributeFSType ''ext4'') True,
         Remote (CLunSetAttribute ''/vol/trident_pvc_1/lun0'' ''context'' ''csi'') True,
         Remote (CVolumeSize ''trident_pvc_1'') False,
         Warning ''Failed to get volume size.'']))"
    by (simp add: createOnPool_def reconcileCreate_def io_defs apiSizeUnreadable_def sim_defs)
  have "Create apiSizeUnreadable (simDeps [aggr ''a1'']) cfgCSI vol1 (aggr ''pool'') (simEmpty, []) =
      createLoop apiSizeUnreadable cfgCSI ''pool'' opt1 vol1 [aggr ''a1''] [] []
        (simEmpty, [Remote (CVolumeExists ''trident_pvc_1'') True])"
    by (rule Create_sim) (simp_all add: apiSizeUnreadable_def simApi_def simEmpty_def)
  with step have trace: "snd (snd (Create apiSizeUnreadable (simDeps [aggr ''a1'']) cfgCSI vol1 (aggr ''pool'')
      (simEmpty, []))) =
        [Remote (CVolumeExists ''trident_pvc_1'') True,
         Remote (CCheckAggregateLimits ''a1'' [] 2000) True,
         Remote (CVolumeCreate ''trident_pvc_1'' ''a1'' opt1) True,
         Remote (CLunCreate ''/vol/trident_pvc_1/lun0'' 2000 ''linux'' False False) True,
         Remote (CLunSetAttribute ''/vol/trident_pvc_1/lun0'' LUNAttributeFSType ''ext4'') True,
         Remote (CLunSetAttribute ''/vol/trident_pvc_1/lun0'' ''context'' ''csi'') True,
         Remote (CVolumeSize ''trident_pvc_1'') False,
         Warning ''Failed to get volume size.'']"
    by simp
  have read: "Remote (CVolumeSize (InternalName vol1)) False \<in>
      set (snd (snd (Create apiSizeUnreadable (simDeps [aggr ''a1'']) cfgCSI vol1 (aggr ''pool'') (simEmpty, []))))"
    unfolding trace by (simp add: vol1_def)
  have resized: "snd (snd (Resize apiStrictSetSize (simDeps []) vol1 2000 (sim1000, []))) =
       [Remote (CVolumeExists ''trident_pvc_1'') True,
        Remote (CVolumeSize ''trident_pvc_1'') True,
        Remote (CCheckAggregateLimitsForFlexvol ''trident_pvc_1'' 2000) True,
        Remote (CLunGetGeometry ''/vol/trident_pvc_1/lun0'') True,
        Remote (CVolumeSetSize ''trident_pvc_1'' ''2000'') True,
        Remote (CLunResize ''/vol/trident_pvc_1/lun0'' 2000) True,
        Remote (CVolumeSize ''trident_pvc_1'') True,
        Remote (CVolumeSetSize ''trident_pvc_1'' ''2010'') False,
        Warning ''Failed to resize volume to match LUN size.'']"
    by (simp add: Resize_def resizeGrow_def checkLunGeometry_def reconcileResize_def io_defs
        apiStrictSetSize_def sim_defs simDeps_def withinTolerance_def)
  have lun: "Remote (CLunResize ''/vol/trident_pvc_1/lun0'' 2000) True \<in>
      set (snd (snd (Resize apiStrictSetSize (simDeps []) vol1 2000 (sim1000, []))))"
    unfolding resized by simp
  from reconciliation_failure_is_warning [THEN conjunct1, rule_format, OF read]
    reconciliation_failure_is_warning [THEN conjunct2, THEN conjunct1, rule_format, OF lun]
  show ?thesis
    using read lun unfolding resized by (simp add: vol1_def)
qed

end
